theory Spec2Isabelle
  imports Complex_Main
begin

section \<open>Real-time correlative scan matcher (2D): errors and machine integers\<close>

text \<open>
  The development embeds \<^verbatim>\<open>real_time_correlative_scan_matcher_2d.cc\<close>.
  Every way in which the C++ code stops without a result is a value of \<open>error\<close>:
  a glog \<^verbatim>\<open>CHECK\<close> that aborts, an exception of the standard library, and the
  undefined behaviours the code can reach (signed overflow of \<^verbatim>\<open>int\<close>, indexing a
  \<^verbatim>\<open>std::vector\<close> past its end, dereferencing the end iterator, writing through a
  null pointer).

  The C++ \<^verbatim>\<open>int\<close> is 32 bits wide; it is modelled by \<open>int\<close> with every arithmetic
  operation of the source wrapped in \<open>checked\<close>, which is \<open>SignedOverflow\<close> outside the
  32-bit range. \<^verbatim>\<open>float\<close> and \<^verbatim>\<open>double\<close> are idealised as \<open>real\<close>: rounding,
  infinities and NaN are outside the model.
\<close>

datatype error =
    CheckFailed
  | LengthError
  | SignedOverflow
  | IndexOutOfRange
  | EmptyRange
  | NullDereference

definition INT_MAX :: int where
  "INT_MAX = 2147483647"

definition INT_MIN :: int where
  "INT_MIN = - 2147483648"

definition int_ok :: "int \<Rightarrow> bool" where
  "int_ok v \<longleftrightarrow> INT_MIN \<le> v \<and> v \<le> INT_MAX"

definition checked :: "int \<Rightarrow> error + int" where
  "checked v = (if int_ok v then Inr v else Inl SignedOverflow)"

section \<open>Data model\<close>

record LinearBounds =
  min_x :: int
  max_x :: int
  min_y :: int
  max_y :: int

text \<open>
  Modelled from the spec: \<^verbatim>\<open>SearchParameters\<close> is declared in a header that is not
  part of the sources. The spec lists \<open>num_scans\<close>, the angular step and the per-scan-index
  linear bounds; the grid resolution is what the metric offset of a candidate is derived from.
\<close>

record SearchParameters =
  num_scans :: int
  linear_bounds :: "LinearBounds list"
  angular_step :: real
  resolution :: real

text \<open>
  The fields \<^verbatim>\<open>x\<close> and \<^verbatim>\<open>y\<close> of the C++ \<^verbatim>\<open>Candidate2D\<close> are named
  \<open>metric_x\<close> and \<open>metric_y\<close> here.
\<close>

record Candidate2D =
  scan_index :: int
  x_index_offset :: int
  y_index_offset :: int
  metric_x :: real
  metric_y :: real
  orientation :: real
  score :: real

text \<open>
  Modelled from the spec: the constructor of \<^verbatim>\<open>Candidate2D\<close> is in a header that is
  not part of the sources. The spec gives the derived fields: metric offset = integer offset
  times grid resolution, orientation = the rotation angle of the scan index, with the
  rotations centred on zero. The score starts at zero.
\<close>

definition Candidate2D_ctor :: "int \<Rightarrow> int \<Rightarrow> int \<Rightarrow> SearchParameters \<Rightarrow> Candidate2D" where
  "Candidate2D_ctor init_scan_index init_x_index_offset init_y_index_offset search_parameters =
     \<lparr> scan_index = init_scan_index,
       x_index_offset = init_x_index_offset,
       y_index_offset = init_y_index_offset,
       metric_x = real_of_int init_x_index_offset * resolution search_parameters,
       metric_y = real_of_int init_y_index_offset * resolution search_parameters,
       orientation =
         real_of_int (init_scan_index - (num_scans search_parameters - 1) div 2)
           * angular_step search_parameters,
       score = 0 \<rparr>"

section \<open>GenerateExhaustiveSearchCandidates\<close>

text \<open>
  Lines 88-98: the first loop adds up, per scan index, the product of the two side lengths
  of the linear bounds. \<^verbatim>\<open>linear_bounds[scan_index]\<close> is unchecked indexing. The loop
  variable \<^verbatim>\<open>scan_index\<close> is \<open>i\<close> in the loops below, and \<open>b\<close> is
  \<^verbatim>\<open>linear_bounds[scan_index]\<close>.
\<close>

definition num_linear_candidates :: "int \<Rightarrow> int \<Rightarrow> error + int" where
  "num_linear_candidates lo hi =
     (case checked (hi - lo) of Inl e \<Rightarrow> Inl e | Inr d \<Rightarrow> checked (d + 1))"

function count_loop :: "SearchParameters \<Rightarrow> int \<Rightarrow> int \<Rightarrow> error + int" where
  "count_loop search_parameters i num_candidates =
     (if i = num_scans search_parameters then Inr num_candidates
      else if \<not> (0 \<le> i \<and> i < int (length (linear_bounds search_parameters)))
      then Inl IndexOutOfRange
      else
        let b = linear_bounds search_parameters ! nat i in
        (case num_linear_candidates (min_x b) (max_x b) of
           Inl e \<Rightarrow> Inl e
         | Inr num_linear_x_candidates \<Rightarrow>
        (case num_linear_candidates (min_y b) (max_y b) of
           Inl e \<Rightarrow> Inl e
         | Inr num_linear_y_candidates \<Rightarrow>
        (case checked (num_linear_x_candidates * num_linear_y_candidates) of
           Inl e \<Rightarrow> Inl e
         | Inr p \<Rightarrow>
        (case checked (num_candidates + p) of
           Inl e \<Rightarrow> Inl e
         | Inr num_candidates' \<Rightarrow>
        (case checked (i + 1) of
           Inl e \<Rightarrow> Inl e
         | Inr i' \<Rightarrow> count_loop search_parameters i' num_candidates'))))))"
  by pat_completeness auto
termination
  by (relation "measure (\<lambda>(sp, i, n). nat (int (length (linear_bounds sp)) - i))")
     (auto simp: checked_def split: if_splits)

text \<open>Lines 106-112: the innermost loop, over the y offsets of one x offset.\<close>

function y_loop ::
  "SearchParameters \<Rightarrow> int \<Rightarrow> int \<Rightarrow> int \<Rightarrow> int \<Rightarrow> Candidate2D list
     \<Rightarrow> error + Candidate2D list" where
  "y_loop search_parameters i x_off y_off y_last candidates =
     (if y_off \<le> y_last
      then
        let candidates' = candidates @ [Candidate2D_ctor i x_off y_off search_parameters] in
        (case checked (y_off + 1) of
           Inl e \<Rightarrow> Inl e
         | Inr y_off' \<Rightarrow> y_loop search_parameters i x_off y_off' y_last candidates')
      else Inr candidates)"
  by pat_completeness auto
termination
  by (relation "measure (\<lambda>(sp, i, x, y, y_last, cs). nat (y_last + 1 - y))")
     (auto simp: checked_def split: if_splits)

text \<open>Lines 103-113: the loop over the x offsets of one scan index.\<close>

function x_loop ::
  "SearchParameters \<Rightarrow> int \<Rightarrow> LinearBounds \<Rightarrow> int \<Rightarrow> Candidate2D list
     \<Rightarrow> error + Candidate2D list" where
  "x_loop search_parameters i b x_off candidates =
     (if x_off \<le> max_x b
      then
        (case y_loop search_parameters i x_off (min_y b) (max_y b) candidates of
           Inl e \<Rightarrow> Inl e
         | Inr candidates' \<Rightarrow>
        (case checked (x_off + 1) of
           Inl e \<Rightarrow> Inl e
         | Inr x_off' \<Rightarrow> x_loop search_parameters i b x_off' candidates'))
      else Inr candidates)"
  by pat_completeness auto
termination
  by (relation "measure (\<lambda>(sp, i, b, x, cs). nat (max_x b + 1 - x))")
     (auto simp: checked_def split: if_splits)

text \<open>Lines 101-114: the loop over the scan indices.\<close>

function scan_loop ::
  "SearchParameters \<Rightarrow> int \<Rightarrow> Candidate2D list \<Rightarrow> error + Candidate2D list" where
  "scan_loop search_parameters i candidates =
     (if i = num_scans search_parameters then Inr candidates
      else if \<not> (0 \<le> i \<and> i < int (length (linear_bounds search_parameters)))
      then Inl IndexOutOfRange
      else
        let b = linear_bounds search_parameters ! nat i in
        (case x_loop search_parameters i b (min_x b) candidates of
           Inl e \<Rightarrow> Inl e
         | Inr candidates' \<Rightarrow>
        (case checked (i + 1) of
           Inl e \<Rightarrow> Inl e
         | Inr i' \<Rightarrow> scan_loop search_parameters i' candidates')))"
  by pat_completeness auto
termination
  by (relation "measure (\<lambda>(sp, i, cs). nat (int (length (linear_bounds sp)) - i))")
     (auto simp: checked_def split: if_splits)

text \<open>
  Lines 85-117. \<^verbatim>\<open>candidates.reserve(num_candidates)\<close> converts the \<^verbatim>\<open>int\<close> to
  \<^verbatim>\<open>size_t\<close>; a negative count becomes a size above \<^verbatim>\<open>max_size()\<close> and
  \<^verbatim>\<open>reserve\<close> throws \<^verbatim>\<open>std::length_error\<close>. The final
  \<^verbatim>\<open>CHECK_EQ(candidates.size(), num_candidates)\<close> compares the same two numbers
  once the count is known to be non-negative. Running out of memory is outside the model.
\<close>

definition GenerateExhaustiveSearchCandidates ::
  "SearchParameters \<Rightarrow> error + Candidate2D list" where
  "GenerateExhaustiveSearchCandidates search_parameters =
     (case count_loop search_parameters 0 0 of
        Inl e \<Rightarrow> Inl e
      | Inr num_candidates \<Rightarrow>
          if num_candidates < 0 then Inl LengthError
          else
            (case scan_loop search_parameters 0 [] of
               Inl e \<Rightarrow> Inl e
             | Inr candidates \<Rightarrow>
                 if int (length candidates) = num_candidates then Inr candidates
                 else Inl CheckFailed))"

declare count_loop.simps [simp del]
declare y_loop.simps [simp del]
declare x_loop.simps [simp del]
declare scan_loop.simps [simp del]

section \<open>Grids and candidate scores\<close>

text \<open>
  A cell index is an \<^verbatim>\<open>Eigen::Array2i\<close>; a discrete scan is the list of the cells hit
  by one rotated scan.
\<close>

type_synonym cell = "int \<times> int"

type_synonym DiscreteScan2D = "cell list"

text \<open>Of \<^verbatim>\<open>MapLimits\<close> this file reads the resolution only.\<close>

record MapLimits =
  limits_resolution :: real

text \<open>
  \<^verbatim>\<open>Grid2D\<close> has two subclasses, told apart by \<^verbatim>\<open>GetGridType()\<close> and then cast down:
  the two constructors of \<open>Grid2D\<close>. A probability grid is read through
  \<^verbatim>\<open>GetProbability\<close>; a TSDF through \<^verbatim>\<open>GetTSDAndWeight\<close> and
  \<^verbatim>\<open>GetMaxCorrespondenceCost\<close>. The accessors belong to the grid classes, which are not
  part of this file: a grid carries them as functions, defined on every cell index.
\<close>

datatype Grid2D =
    ProbabilityGrid MapLimits "cell \<Rightarrow> real"
  | TSDF2D MapLimits "cell \<Rightarrow> real \<times> real" real

fun limits :: "Grid2D \<Rightarrow> MapLimits" where
  "limits (ProbabilityGrid l GetProbability) = l"
| "limits (TSDF2D l GetTSDAndWeight max_correspondence_cost) = l"

text \<open>
  Lines 46-47 and 68-69: the cell read for one scan point, \<^verbatim>\<open>xy_index\<close> shifted by
  the candidate's offsets. Both sums are \<^verbatim>\<open>int\<close> additions.
\<close>

definition proposed_xy_index :: "cell \<Rightarrow> int \<Rightarrow> int \<Rightarrow> error + cell" where
  "proposed_xy_index xy_index x_off y_off =
     (case checked (fst xy_index + x_off) of
        Inl e \<Rightarrow> Inl e
      | Inr px \<Rightarrow>
     (case checked (snd xy_index + y_off) of
        Inl e \<Rightarrow> Inl e
      | Inr py \<Rightarrow> Inr (px, py)))"

text \<open>Lines 43-56: the loop of the TSDF score, with its two accumulators.\<close>

fun tsdf_loop ::
  "(cell \<Rightarrow> real \<times> real) \<Rightarrow> real \<Rightarrow> DiscreteScan2D \<Rightarrow> int \<Rightarrow> int \<Rightarrow> real \<Rightarrow> real
     \<Rightarrow> error + real \<times> real" where
  "tsdf_loop GetTSDAndWeight max_cost [] x_off y_off candidate_score summed_weight =
     Inr (candidate_score, summed_weight)"
| "tsdf_loop GetTSDAndWeight max_cost (xy_index # rest) x_off y_off candidate_score
       summed_weight =
     (case proposed_xy_index xy_index x_off y_off of
        Inl e \<Rightarrow> Inl e
      | Inr c \<Rightarrow>
          let tsd_and_weight = GetTSDAndWeight c;
              normalized_tsd_score = (max_cost - \<bar>fst tsd_and_weight\<bar>) / max_cost;
              weight = snd tsd_and_weight
          in tsdf_loop GetTSDAndWeight max_cost rest x_off y_off
               (candidate_score + normalized_tsd_score * weight) (summed_weight + weight))"

text \<open>Lines 40-61.\<close>

definition ComputeCandidateScore_TSDF2D ::
  "(cell \<Rightarrow> real \<times> real) \<Rightarrow> real \<Rightarrow> DiscreteScan2D \<Rightarrow> int \<Rightarrow> int \<Rightarrow> error + real" where
  "ComputeCandidateScore_TSDF2D GetTSDAndWeight max_cost discrete_scan x_off y_off =
     (case tsdf_loop GetTSDAndWeight max_cost discrete_scan x_off y_off 0 0 of
        Inl e \<Rightarrow> Inl e
      | Inr (candidate_score, summed_weight) \<Rightarrow>
          if summed_weight = 0 then Inr 0
          else
            let candidate_score' = candidate_score / summed_weight in
            if candidate_score' \<ge> 0 then Inr candidate_score' else Inl CheckFailed)"

text \<open>Lines 66-73: the loop of the probability-grid score.\<close>

fun probability_loop ::
  "(cell \<Rightarrow> real) \<Rightarrow> DiscreteScan2D \<Rightarrow> int \<Rightarrow> int \<Rightarrow> real \<Rightarrow> error + real" where
  "probability_loop GetProbability [] x_off y_off candidate_score = Inr candidate_score"
| "probability_loop GetProbability (xy_index # rest) x_off y_off candidate_score =
     (case proposed_xy_index xy_index x_off y_off of
        Inl e \<Rightarrow> Inl e
      | Inr c \<Rightarrow>
          probability_loop GetProbability rest x_off y_off (candidate_score + GetProbability c))"

text \<open>
  Lines 63-77. For an empty scan the C++ divides \<open>0\<close> by \<open>0\<close>; the NaN fails
  \<^verbatim>\<open>CHECK_GT\<close>. Here \<open>0 / 0 = 0\<close>, which fails the same check.
\<close>

definition ComputeCandidateScore_ProbabilityGrid ::
  "(cell \<Rightarrow> real) \<Rightarrow> DiscreteScan2D \<Rightarrow> int \<Rightarrow> int \<Rightarrow> error + real" where
  "ComputeCandidateScore_ProbabilityGrid GetProbability discrete_scan x_off y_off =
     (case probability_loop GetProbability discrete_scan x_off y_off 0 of
        Inl e \<Rightarrow> Inl e
      | Inr candidate_score \<Rightarrow>
          let candidate_score' = candidate_score / real (length discrete_scan) in
          if candidate_score' > 0 then Inr candidate_score' else Inl CheckFailed)"

section \<open>ScoreCandidates\<close>

text \<open>The options of the matcher, fixed at construction (line 83).\<close>

record RealTimeCorrelativeScanMatcherOptions =
  linear_search_window :: real
  angular_search_window :: real
  translation_delta_cost_weight :: real
  rotation_delta_cost_weight :: real

text \<open>\<^verbatim>\<open>common::Pow2\<close> squares its argument; \<^verbatim>\<open>std::hypot\<close> is the Euclidean norm.\<close>

definition Pow2 :: "real \<Rightarrow> real" where
  "Pow2 a = a * a"

definition hypot :: "real \<Rightarrow> real \<Rightarrow> real" where
  "hypot a b = sqrt (a * a + b * b)"

text \<open>Lines 271-284: the switch over the grid type, with the downcast of each case.\<close>

definition ComputeCandidateScore ::
  "Grid2D \<Rightarrow> DiscreteScan2D \<Rightarrow> int \<Rightarrow> int \<Rightarrow> error + real" where
  "ComputeCandidateScore grid discrete_scan x_off y_off =
     (case grid of
        ProbabilityGrid l GetProbability \<Rightarrow>
          ComputeCandidateScore_ProbabilityGrid GetProbability discrete_scan x_off y_off
      | TSDF2D l GetTSDAndWeight max_cost \<Rightarrow>
          ComputeCandidateScore_TSDF2D GetTSDAndWeight max_cost discrete_scan x_off y_off)"

text \<open>Lines 285-289: the factor the raw score of a candidate is multiplied by.\<close>

definition score_factor :: "RealTimeCorrelativeScanMatcherOptions \<Rightarrow> Candidate2D \<Rightarrow> real" where
  "score_factor options candidate =
     exp (- Pow2 (hypot (metric_x candidate) (metric_y candidate)
                    * translation_delta_cost_weight options
                  + \<bar>orientation candidate\<bar> * rotation_delta_cost_weight options))"

text \<open>
  Lines 266-291: the loop over the candidates, each updated in place.
  \<^verbatim>\<open>discrete_scans[candidate.scan_index]\<close> is unchecked indexing.
\<close>

fun ScoreCandidates ::
  "RealTimeCorrelativeScanMatcherOptions \<Rightarrow> Grid2D \<Rightarrow> DiscreteScan2D list \<Rightarrow> SearchParameters
     \<Rightarrow> Candidate2D list \<Rightarrow> error + Candidate2D list" where
  "ScoreCandidates options grid discrete_scans search_parameters [] = Inr []"
| "ScoreCandidates options grid discrete_scans search_parameters (candidate # rest) =
     (if \<not> (0 \<le> scan_index candidate \<and> scan_index candidate < int (length discrete_scans))
      then Inl IndexOutOfRange
      else
        (case ComputeCandidateScore grid (discrete_scans ! nat (scan_index candidate))
                (x_index_offset candidate) (y_index_offset candidate) of
           Inl e \<Rightarrow> Inl e
         | Inr raw \<Rightarrow>
        (case ScoreCandidates options grid discrete_scans search_parameters rest of
           Inl e \<Rightarrow> Inl e
         | Inr rest' \<Rightarrow>
             Inr (candidate\<lparr>score := raw * score_factor options candidate\<rparr> # rest'))))"

section \<open>Match: the exhaustive search\<close>

text \<open>
  Modelled from the spec: \<^verbatim>\<open>Rigid2d\<close> is declared in the transform library, which is not
  part of the sources. A pose is a translation and a rotation; the rotation is an
  \<^verbatim>\<open>Eigen::Rotation2D\<close>, which is its angle, and the product of two rotations adds the
  angles. Composition is the group operation of SE(2): rotate, then translate.
\<close>

record Rigid2d =
  translation :: "real \<times> real"
  rotation :: real

definition Rotation2D_apply :: "real \<Rightarrow> real \<times> real \<Rightarrow> real \<times> real" where
  "Rotation2D_apply a v = (cos a * fst v - sin a * snd v, sin a * fst v + cos a * snd v)"

definition Rigid2d_apply :: "Rigid2d \<Rightarrow> real \<times> real \<Rightarrow> real \<times> real" where
  "Rigid2d_apply pose v =
     (fst (Rotation2D_apply (rotation pose) v) + fst (translation pose),
      snd (Rotation2D_apply (rotation pose) v) + snd (translation pose))"

definition Rigid2d_mult :: "Rigid2d \<Rightarrow> Rigid2d \<Rightarrow> Rigid2d" where
  "Rigid2d_mult lhs rhs =
     \<lparr> translation = Rigid2d_apply lhs (translation rhs),
       rotation = rotation lhs + rotation rhs \<rparr>"

text \<open>A point cloud is the list of the positions of its points.\<close>

type_synonym PointCloud = "(real \<times> real \<times> real) list"

text \<open>
  What \<^verbatim>\<open>Match\<close> calls outside this file: the rotation of a point cloud about the z axis
  by an angle, the constructor of \<^verbatim>\<open>SearchParameters\<close>, \<^verbatim>\<open>GenerateRotatedScans\<close>
  and \<^verbatim>\<open>DiscretizeScans\<close>. They are parameters of the model.
\<close>

record Collaborators =
  TransformPointCloud :: "PointCloud \<Rightarrow> real \<Rightarrow> PointCloud"
  SearchParameters_ctor :: "real \<Rightarrow> real \<Rightarrow> PointCloud \<Rightarrow> real \<Rightarrow> SearchParameters"
  GenerateRotatedScans :: "PointCloud \<Rightarrow> SearchParameters \<Rightarrow> PointCloud list"
  DiscretizeScans :: "MapLimits \<Rightarrow> PointCloud list \<Rightarrow> real \<times> real \<Rightarrow> DiscreteScan2D list"

text \<open>
  Modelled from the spec: \<^verbatim>\<open>operator<\<close> of \<^verbatim>\<open>Candidate2D\<close> is in a header that is not
  part of the sources; the spec has the candidates compared by score. With it,
  \<^verbatim>\<open>std::max_element\<close> keeps the element it holds unless a later one is strictly greater.
  On an empty range it returns the end iterator, which line 145 dereferences.
\<close>

fun max_element_from :: "Candidate2D \<Rightarrow> Candidate2D list \<Rightarrow> Candidate2D" where
  "max_element_from largest [] = largest"
| "max_element_from largest (c # cs) =
     max_element_from (if score largest < score c then c else largest) cs"

definition max_element :: "Candidate2D list \<Rightarrow> error + Candidate2D" where
  "max_element candidates =
     (case candidates of [] \<Rightarrow> Inl EmptyRange | c # cs \<Rightarrow> Inr (max_element_from c cs))"

text \<open>Lines 125-139: the search parameters and the discrete scans of one call.\<close>

definition Match_search_parameters ::
  "Collaborators \<Rightarrow> RealTimeCorrelativeScanMatcherOptions \<Rightarrow> Rigid2d \<Rightarrow> PointCloud \<Rightarrow> Grid2D
     \<Rightarrow> SearchParameters" where
  "Match_search_parameters ext options initial_pose_estimate point_cloud grid =
     (let initial_rotation = rotation initial_pose_estimate;
          rotated_point_cloud = TransformPointCloud ext point_cloud initial_rotation
      in SearchParameters_ctor ext (linear_search_window options)
           (angular_search_window options) rotated_point_cloud
           (limits_resolution (limits grid)))"

definition Match_discrete_scans ::
  "Collaborators \<Rightarrow> RealTimeCorrelativeScanMatcherOptions \<Rightarrow> Rigid2d \<Rightarrow> PointCloud \<Rightarrow> Grid2D
     \<Rightarrow> DiscreteScan2D list" where
  "Match_discrete_scans ext options initial_pose_estimate point_cloud grid =
     (let initial_rotation = rotation initial_pose_estimate;
          rotated_point_cloud = TransformPointCloud ext point_cloud initial_rotation;
          search_parameters =
            Match_search_parameters ext options initial_pose_estimate point_cloud grid;
          rotated_scans = GenerateRotatedScans ext rotated_point_cloud search_parameters
      in DiscretizeScans ext (limits grid) rotated_scans (translation initial_pose_estimate))"

text \<open>
  Lines 119-151. The output pointer \<^verbatim>\<open>pose_estimate\<close> is \<open>None\<close> when null and
  \<open>Some\<close> of the pose it points to otherwise; a successful call returns the score together
  with the pose written through the pointer.
\<close>

definition Match ::
  "Collaborators \<Rightarrow> RealTimeCorrelativeScanMatcherOptions \<Rightarrow> Rigid2d \<Rightarrow> PointCloud \<Rightarrow> Grid2D
     \<Rightarrow> Rigid2d option \<Rightarrow> error + real \<times> Rigid2d" where
  "Match ext options initial_pose_estimate point_cloud grid pose_estimate =
     (if pose_estimate = None then Inl CheckFailed
      else
        let initial_rotation = rotation initial_pose_estimate;
            search_parameters =
              Match_search_parameters ext options initial_pose_estimate point_cloud grid;
            discrete_scans =
              Match_discrete_scans ext options initial_pose_estimate point_cloud grid
        in
        (case GenerateExhaustiveSearchCandidates search_parameters of
           Inl e \<Rightarrow> Inl e
         | Inr candidates \<Rightarrow>
        (case ScoreCandidates options grid discrete_scans search_parameters candidates of
           Inl e \<Rightarrow> Inl e
         | Inr scored \<Rightarrow>
        (case max_element scored of
           Inl e \<Rightarrow> Inl e
         | Inr best_candidate \<Rightarrow>
             Inr (score best_candidate,
                  \<lparr> translation =
                      (fst (translation initial_pose_estimate) + metric_x best_candidate,
                       snd (translation initial_pose_estimate) + metric_y best_candidate),
                    rotation = initial_rotation + orientation best_candidate \<rparr>)))))"

section \<open>Match: the two fine aligners\<close>

text \<open>
  Both variants hand the work to the Point Cloud Library. A PCL cloud is the list of its
  points; a submap gives its point data; a registration returns its final transformation
  (a 4 by 4 matrix, read by row and column) and its fitness score. The voxel filter, the
  conversion of a point cloud to a PCL cloud, the two registrations and the angle of a 2 by 2
  rotation matrix (\<^verbatim>\<open>Eigen::Rotation2Dd\<close> built from a matrix) are parameters of the model.
\<close>

type_synonym PclCloud = "(real \<times> real \<times> real) list"

type_synonym Matrix4 = "nat \<times> nat \<Rightarrow> real"

record Submap2D =
  GetPointData :: PclCloud

record IcpSettings =
  icp_max_correspondence_distance :: real
  icp_maximum_iterations :: nat
  icp_transformation_epsilon :: real
  icp_euclidean_fitness_epsilon :: real
  icp_ransac_iterations :: nat

record NdtSettings =
  ndt_transformation_epsilon :: real
  ndt_step_size :: real
  ndt_resolution :: real
  ndt_maximum_iterations :: nat

record PclCollaborators =
  VoxelGrid_filter :: "real \<times> real \<times> real \<Rightarrow> PclCloud \<Rightarrow> PclCloud"
  ToPointCloudMessage :: "PointCloud \<Rightarrow> PclCloud"
  IterativeClosestPoint_align :: "IcpSettings \<Rightarrow> PclCloud \<Rightarrow> PclCloud \<Rightarrow> Matrix4 \<times> real"
  NormalDistributionsTransform_align ::
    "NdtSettings \<Rightarrow> PclCloud \<Rightarrow> PclCloud \<Rightarrow> Matrix4 \<times> real"
  Rotation2D_of_matrix :: "(real \<times> real) \<times> (real \<times> real) \<Rightarrow> real"

text \<open>
  Lines 165-172 and 219-226, the same in both variants: each point is copied, its first two
  coordinates are replaced by the initial pose applied to them, its third is set to zero, and
  the copy is pushed onto the source cloud.
\<close>

fun source_loop :: "Rigid2d \<Rightarrow> PointCloud \<Rightarrow> PointCloud \<Rightarrow> PointCloud" where
  "source_loop initial_pose_estimate [] source_cloud = source_cloud"
| "source_loop initial_pose_estimate (point # rest) source_cloud =
     (let head2 = Rigid2d_apply initial_pose_estimate (fst point, fst (snd point));
          point' = (fst head2, snd head2, 0)
      in source_loop initial_pose_estimate rest (source_cloud @ [point']))"

text \<open>Lines 198-199 and 257-258: the planar pose read off the final transformation.\<close>

definition delta_of :: "PclCollaborators \<Rightarrow> Matrix4 \<Rightarrow> Rigid2d" where
  "delta_of pcl transformation =
     \<lparr> translation = (transformation (0, 3), transformation (1, 3)),
       rotation =
         Rotation2D_of_matrix pcl
           ((transformation (0, 0), transformation (0, 1)),
            (transformation (1, 0), transformation (1, 1))) \<rparr>"

text \<open>Lines 183-190: the settings of the closest-point registration.\<close>

definition icp_settings :: IcpSettings where
  "icp_settings =
     \<lparr> icp_max_correspondence_distance = 0.5,
       icp_maximum_iterations = 200,
       icp_transformation_epsilon = 1 / 10 ^ 10,
       icp_euclidean_fitness_epsilon = 1 / 10 ^ 5,
       icp_ransac_iterations = 2 \<rparr>"

text \<open>Lines 239-246: the settings of the distribution-based registration.\<close>

definition ndt_settings :: NdtSettings where
  "ndt_settings =
     \<lparr> ndt_transformation_epsilon = 1 / 10 ^ 10,
       ndt_step_size = 0.1,
       ndt_resolution = 0.5,
       ndt_maximum_iterations = 100 \<rparr>"

text \<open>
  Lines 153-205, the closest-point variant. Nothing checks the output pointer: the
  registration runs, and line 203 writes through the pointer whatever it is.
\<close>

definition Match_icp ::
  "PclCollaborators \<Rightarrow> Rigid2d \<Rightarrow> PointCloud \<Rightarrow> Submap2D \<Rightarrow> Rigid2d option
     \<Rightarrow> error + real \<times> Rigid2d" where
  "Match_icp pcl initial_pose_estimate point_cloud matching_submap pose_estimate =
     (let non_target = GetPointData matching_submap;
          target = VoxelGrid_filter pcl (0.02, 0.02, 0.02) non_target;
          source_cloud = source_loop initial_pose_estimate point_cloud [];
          source = ToPointCloudMessage pcl source_cloud;
          aligned = IterativeClosestPoint_align pcl icp_settings source target;
          delta = delta_of pcl (fst aligned)
      in case pose_estimate of
           None \<Rightarrow> Inl NullDereference
         | Some old \<Rightarrow> Inr (snd aligned, Rigid2d_mult delta initial_pose_estimate))"

text \<open>Lines 207-264, the distribution-based variant; the output pointer is not checked either.\<close>

definition Match_ndt ::
  "PclCollaborators \<Rightarrow> Rigid2d \<Rightarrow> PointCloud \<Rightarrow> Submap2D \<Rightarrow> Rigid2d option
     \<Rightarrow> error + real \<times> Rigid2d" where
  "Match_ndt pcl initial_pose_estimate point_cloud matching_submap pose_estimate =
     (let non_target = GetPointData matching_submap;
          target = VoxelGrid_filter pcl (0.05, 0.05, 0.05) non_target;
          source_cloud = source_loop initial_pose_estimate point_cloud [];
          source = ToPointCloudMessage pcl source_cloud;
          aligned = NormalDistributionsTransform_align pcl ndt_settings source target;
          delta = delta_of pcl (fst aligned)
      in case pose_estimate of
           None \<Rightarrow> Inl NullDereference
         | Some old \<Rightarrow> Inr (snd aligned, Rigid2d_mult delta initial_pose_estimate))"

section \<open>What the claims are stated with\<close>

text \<open>
  The enumeration the three nested loops are meant to produce: scan index first, then x
  offset, then y offset, each running through its bounds.
\<close>

definition row_of :: "SearchParameters \<Rightarrow> int \<Rightarrow> LinearBounds \<Rightarrow> int \<Rightarrow> Candidate2D list" where
  "row_of sp i b x = map (\<lambda>y. Candidate2D_ctor i x y sp) [min_y b..max_y b]"

definition candidates_of_scan :: "SearchParameters \<Rightarrow> int \<Rightarrow> Candidate2D list" where
  "candidates_of_scan sp i =
     (let b = linear_bounds sp ! nat i in concat (map (row_of sp i b) [min_x b..max_x b]))"

definition enumeration :: "SearchParameters \<Rightarrow> Candidate2D list" where
  "enumeration sp = concat (map (candidates_of_scan sp) [0..num_scans sp - 1])"

text \<open>
  The number of candidates in the words of the spec: the sum, over the scan indices, of the
  per-index cell counts of the linear bounds.
\<close>

definition cell_count :: "LinearBounds \<Rightarrow> int" where
  "cell_count b = (max_x b - min_x b + 1) * (max_y b - min_y b + 1)"

definition expected_num_candidates :: "SearchParameters \<Rightarrow> int" where
  "expected_num_candidates sp =
     sum_list (map (\<lambda>i. cell_count (linear_bounds sp ! nat i)) [0..num_scans sp - 1])"

definition bounds_not_inverted :: "LinearBounds \<Rightarrow> bool" where
  "bounds_not_inverted b \<longleftrightarrow> min_x b \<le> max_x b + 1 \<and> min_y b \<le> max_y b + 1"

text \<open>
  Side conditions on search parameters. \<open>bounds_in_range\<close> keeps the \<^verbatim>\<open>int\<close> arithmetic
  on one set of bounds inside 32 bits (the loop counters step one past the upper bound);
  \<open>search_parameters_ok\<close> asks for \<open>num_scans\<close> sets of such bounds;
  \<open>no_inverted_bounds\<close> says that no range of offsets has a negative length.
\<close>

definition bounds_in_range :: "LinearBounds \<Rightarrow> bool" where
  "bounds_in_range b \<longleftrightarrow>
     INT_MIN \<le> min_x b \<and> max_x b < INT_MAX \<and> INT_MIN \<le> min_y b \<and> max_y b < INT_MAX \<and>
     max_x b - min_x b < INT_MAX \<and> max_y b - min_y b < INT_MAX"

definition search_parameters_ok :: "SearchParameters \<Rightarrow> bool" where
  "search_parameters_ok sp \<longleftrightarrow>
     0 \<le> num_scans sp \<and> num_scans sp \<le> int (length (linear_bounds sp)) \<and>
     num_scans sp \<le> INT_MAX \<and>
     list_all bounds_in_range (take (nat (num_scans sp)) (linear_bounds sp))"

definition no_inverted_bounds :: "SearchParameters \<Rightarrow> bool" where
  "no_inverted_bounds sp \<longleftrightarrow>
     list_all bounds_not_inverted (take (nat (num_scans sp)) (linear_bounds sp))"

text \<open>
  The cells one candidate reads: the discrete scan shifted by the candidate's offsets. The
  additions of the source are \<^verbatim>\<open>int\<close> additions, so the shifted cells have to be pairs
  of 32-bit integers.
\<close>

definition shifted_cells :: "DiscreteScan2D \<Rightarrow> int \<Rightarrow> int \<Rightarrow> cell list" where
  "shifted_cells discrete_scan x_off y_off = map (\<lambda>c. (fst c + x_off, snd c + y_off)) discrete_scan"

definition cells_in_int_range :: "cell list \<Rightarrow> bool" where
  "cells_in_int_range cells = list_all (\<lambda>c. int_ok (fst c) \<and> int_ok (snd c)) cells"

definition arithmetic_mean :: "real list \<Rightarrow> real" where
  "arithmetic_mean xs = sum_list xs / real (length xs)"

definition normalized_proximity :: "real \<Rightarrow> real \<times> real \<Rightarrow> real" where
  "normalized_proximity max_cost tsd_and_weight = (max_cost - \<bar>fst tsd_and_weight\<bar>) / max_cost"

definition weighted_mean :: "(real \<times> real) list \<Rightarrow> real" where
  "weighted_mean vws = sum_list (map (\<lambda>vw. fst vw * snd vw) vws) / sum_list (map snd vws)"

text \<open>
  What one pass of the loop of \<open>ScoreCandidates\<close> does to a candidate: the scan index is
  inside the discrete scans, the raw score is the one of the grid, and only the score field
  changes.
\<close>

definition scored_as ::
  "RealTimeCorrelativeScanMatcherOptions \<Rightarrow> Grid2D \<Rightarrow> DiscreteScan2D list \<Rightarrow> Candidate2D
     \<Rightarrow> Candidate2D \<Rightarrow> bool" where
  "scored_as options grid discrete_scans candidate candidate' \<longleftrightarrow>
     0 \<le> scan_index candidate \<and> scan_index candidate < int (length discrete_scans) \<and>
     (\<exists>raw. ComputeCandidateScore grid (discrete_scans ! nat (scan_index candidate))
               (x_index_offset candidate) (y_index_offset candidate) = Inr raw \<and>
            candidate' = candidate\<lparr>score := raw * score_factor options candidate\<rparr>)"

text \<open>The factor of claim C1 in the words of the spec, to compare with \<open>score_factor\<close>.\<close>

definition spec_score_factor :: "RealTimeCorrelativeScanMatcherOptions \<Rightarrow> Candidate2D \<Rightarrow> real" where
  "spec_score_factor options candidate =
     exp (- ((hypot (metric_x candidate) (metric_y candidate))\<^sup>2
               * translation_delta_cost_weight options
             + \<bar>orientation candidate\<bar> * rotation_delta_cost_weight options))"

text \<open>
  The place of a candidate in the enumeration: its scan index, x offset and y offset,
  compared lexicographically in this order.
\<close>

definition enumeration_key :: "Candidate2D \<Rightarrow> int \<times> int \<times> int" where
  "enumeration_key c = (scan_index c, x_index_offset c, y_index_offset c)"

definition key_less :: "int \<times> int \<times> int \<Rightarrow> int \<times> int \<times> int \<Rightarrow> bool" where
  "key_less k k' \<longleftrightarrow>
     fst k < fst k' \<or>
     (fst k = fst k' \<and>
      (fst (snd k) < fst (snd k') \<or> (fst (snd k) = fst (snd k') \<and> snd (snd k) < snd (snd k'))))"

text \<open>
  The trimming invariant of the search parameters against a set of valid cells: every point
  of the discrete scan of a scan index, moved by any offset inside the linear bounds of that
  index, is a valid cell. Two grids agree on the valid cells when they are of the same kind,
  have the same limits (and maximal correspondence cost) and hold the same values there.
\<close>

definition trimming_invariant ::
  "(cell \<Rightarrow> bool) \<Rightarrow> SearchParameters \<Rightarrow> DiscreteScan2D list \<Rightarrow> bool" where
  "trimming_invariant valid sp discrete_scans \<longleftrightarrow>
     list_all
       (\<lambda>i. let b = linear_bounds sp ! nat i in
            list_all
              (\<lambda>xy_index.
                 list_all
                   (\<lambda>x_off.
                      list_all (\<lambda>y_off. valid (fst xy_index + x_off, snd xy_index + y_off))
                        [min_y b..max_y b])
                   [min_x b..max_x b])
              (discrete_scans ! nat i))
       [0..num_scans sp - 1]"

definition grids_agree_on :: "(cell \<Rightarrow> bool) \<Rightarrow> Grid2D \<Rightarrow> Grid2D \<Rightarrow> bool" where
  "grids_agree_on valid grid grid' \<longleftrightarrow>
     (case grid of
        ProbabilityGrid l p \<Rightarrow>
          (case grid' of
             ProbabilityGrid l' p' \<Rightarrow> l = l' \<and> (\<forall>c. valid c \<longrightarrow> p c = p' c)
           | TSDF2D l' t' m' \<Rightarrow> False)
      | TSDF2D l t m \<Rightarrow>
          (case grid' of
             ProbabilityGrid l' p' \<Rightarrow> False
           | TSDF2D l' t' m' \<Rightarrow> l = l' \<and> m = m' \<and> (\<forall>c. valid c \<longrightarrow> t c = t' c)))"


text \<open>Inputs for the concrete instances below.\<close>

definition sp_small :: SearchParameters where
  "sp_small = \<lparr> num_scans = 1,
     linear_bounds = [\<lparr> min_x = - 1, max_x = 1, min_y = - 1, max_y = 0 \<rparr>],
     angular_step = 1, resolution = 1 \<rparr>"

definition sp_inverted :: SearchParameters where
  "sp_inverted = \<lparr> num_scans = 1,
     linear_bounds = [\<lparr> min_x = 2, max_x = - 2, min_y = 2, max_y = - 2 \<rparr>],
     angular_step = 1, resolution = 1 \<rparr>"

definition options_tw2 :: RealTimeCorrelativeScanMatcherOptions where
  "options_tw2 = \<lparr> linear_search_window = 1, angular_search_window = 0,
     translation_delta_cost_weight = 2, rotation_delta_cost_weight = 0 \<rparr>"

definition grid_half :: Grid2D where
  "grid_half = ProbabilityGrid \<lparr>limits_resolution = 1\<rparr> (\<lambda>c. 1 / 2)"

definition ext_small :: Collaborators where
  "ext_small = \<lparr> TransformPointCloud = (\<lambda>cloud angle. cloud),
     SearchParameters_ctor = (\<lambda>linear_window angular_window cloud res. sp_small),
     GenerateRotatedScans = (\<lambda>cloud sp. [cloud]),
     DiscretizeScans = (\<lambda>l scans t. [[(0, 0)]]) \<rparr>"

definition options_zero :: RealTimeCorrelativeScanMatcherOptions where
  "options_zero = \<lparr> linear_search_window = 1, angular_search_window = 0,
     translation_delta_cost_weight = 0, rotation_delta_cost_weight = 0 \<rparr>"

definition grid_two_peaks :: Grid2D where
  "grid_two_peaks = ProbabilityGrid \<lparr>limits_resolution = 1\<rparr>
     (\<lambda>c. if c = (0, 0) \<or> c = (1, 0) then 9 / 10 else 1 / 10)"

definition pose_3_4 :: Rigid2d where
  "pose_3_4 = \<lparr> translation = (3, 4), rotation = 1 \<rparr>"

definition candidates_small :: "Candidate2D list" where
  "candidates_small =
     [Candidate2D_ctor 0 (- 1) (- 1) sp_small, Candidate2D_ctor 0 (- 1) 0 sp_small,
      Candidate2D_ctor 0 0 (- 1) sp_small, Candidate2D_ctor 0 0 0 sp_small,
      Candidate2D_ctor 0 1 (- 1) sp_small, Candidate2D_ctor 0 1 0 sp_small]"

definition scored_small :: "Candidate2D list" where
  "scored_small =
     [(Candidate2D_ctor 0 (- 1) (- 1) sp_small)\<lparr>score := 1 / 10\<rparr>,
      (Candidate2D_ctor 0 (- 1) 0 sp_small)\<lparr>score := 1 / 10\<rparr>,
      (Candidate2D_ctor 0 0 (- 1) sp_small)\<lparr>score := 1 / 10\<rparr>,
      (Candidate2D_ctor 0 0 0 sp_small)\<lparr>score := 9 / 10\<rparr>,
      (Candidate2D_ctor 0 1 (- 1) sp_small)\<lparr>score := 1 / 10\<rparr>,
      (Candidate2D_ctor 0 1 0 sp_small)\<lparr>score := 9 / 10\<rparr>]"

definition valid_10_by_10 :: "cell \<Rightarrow> bool" where
  "valid_10_by_10 c \<longleftrightarrow> 0 \<le> fst c \<and> fst c < 10 \<and> 0 \<le> snd c \<and> snd c < 10"

definition grid_differs_outside :: Grid2D where
  "grid_differs_outside = ProbabilityGrid \<lparr>limits_resolution = 1\<rparr>
     (\<lambda>c. if fst c < 0 then 1 else if c = (0, 0) \<or> c = (1, 0) then 9 / 10 else 1 / 10)"


definition pose_shift :: Rigid2d where
  "pose_shift = \<lparr> translation = (3, 4), rotation = 0 \<rparr>"

definition sp_three :: SearchParameters where
  "sp_three = \<lparr> num_scans = 3,
     linear_bounds = [\<lparr> min_x = 0, max_x = 1, min_y = 0, max_y = 0 \<rparr>,
                      \<lparr> min_x = 0, max_x = 1, min_y = 0, max_y = 0 \<rparr>,
                      \<lparr> min_x = 0, max_x = 1, min_y = 0, max_y = 0 \<rparr>],
     angular_step = 1 / 4, resolution = 2 \<rparr>"

definition ext_three :: Collaborators where
  "ext_three = \<lparr> TransformPointCloud = (\<lambda>cloud angle. cloud),
     SearchParameters_ctor = (\<lambda>linear_window angular_window cloud res. sp_three),
     GenerateRotatedScans = (\<lambda>cloud sp. [cloud, cloud, cloud]),
     DiscretizeScans = (\<lambda>l scans t. [[(0, 0)], [(0, 0)], [(5, 5)]]) \<rparr>"

definition grid_peak_6_5 :: Grid2D where
  "grid_peak_6_5 = ProbabilityGrid \<lparr>limits_resolution = 2\<rparr>
     (\<lambda>c. if c = (6, 5) then 9 / 10 else 1 / 10)"

definition candidates_three :: "Candidate2D list" where
  "candidates_three =
     [Candidate2D_ctor 0 0 0 sp_three, Candidate2D_ctor 0 1 0 sp_three,
      Candidate2D_ctor 1 0 0 sp_three, Candidate2D_ctor 1 1 0 sp_three,
      Candidate2D_ctor 2 0 0 sp_three, Candidate2D_ctor 2 1 0 sp_three]"

definition scored_three :: "Candidate2D list" where
  "scored_three =
     [(Candidate2D_ctor 0 0 0 sp_three)\<lparr>score := 1 / 10\<rparr>,
      (Candidate2D_ctor 0 1 0 sp_three)\<lparr>score := 1 / 10\<rparr>,
      (Candidate2D_ctor 1 0 0 sp_three)\<lparr>score := 1 / 10\<rparr>,
      (Candidate2D_ctor 1 1 0 sp_three)\<lparr>score := 1 / 10\<rparr>,
      (Candidate2D_ctor 2 0 0 sp_three)\<lparr>score := 1 / 10\<rparr>,
      (Candidate2D_ctor 2 1 0 sp_three)\<lparr>score := 9 / 10\<rparr>]"

section \<open>The candidate enumeration\<close>

lemma checked_Inr: "checked v = Inr w \<Longrightarrow> w = v \<and> int_ok v"
  by (simp add: checked_def split: if_splits)

lemma y_loop_Inr:
  "y_loop sp i x y yl cs = Inr r \<Longrightarrow> r = cs @ map (\<lambda>y. Candidate2D_ctor i x y sp) [y..yl]"
proof (induction sp i x y yl cs rule: y_loop.induct)
  case (1 sp i x y yl cs)
  show ?case
  proof (cases "y \<le> yl")
    case True
    from "1.prems" True obtain y' where
      c: "checked (y + 1) = Inr y'" and
      r: "y_loop sp i x y' yl (cs @ [Candidate2D_ctor i x y sp]) = Inr r"
      by (subst (asm) y_loop.simps) (auto simp: Let_def split: sum.splits)
    from c have y': "y' = y + 1" by (simp add: checked_Inr)
    from "1.IH"[OF True refl c r] y' True show ?thesis
      by (simp add: upto_rec1[of y yl])
  next
    case False
    with "1.prems" show ?thesis
      by (subst (asm) y_loop.simps) simp
  qed
qed

lemma y_loop_ok:
  "yl < INT_MAX \<Longrightarrow> INT_MIN \<le> y \<Longrightarrow>
   y_loop sp i x y yl cs = Inr (cs @ map (\<lambda>y. Candidate2D_ctor i x y sp) [y..yl])"
proof (induction sp i x y yl cs rule: y_loop.induct)
  case (1 sp i x y yl cs)
  show ?case
  proof (cases "y \<le> yl")
    case True
    with "1.prems" have c: "checked (y + 1) = Inr (y + 1)"
      by (simp add: checked_def int_ok_def)
    have "INT_MIN \<le> y + 1" using "1.prems" by simp
    from "1.IH"[OF True refl c "1.prems"(1) this] True c show ?thesis
      by (subst y_loop.simps) (simp add: upto_rec1[of y yl])
  next
    case False
    then show ?thesis
      by (subst y_loop.simps) simp
  qed
qed


lemma x_loop_Inr:
  "x_loop sp i b x cs = Inr r \<Longrightarrow> r = cs @ concat (map (row_of sp i b) [x..max_x b])"
proof (induction sp i b x cs rule: x_loop.induct)
  case (1 sp i b x cs)
  show ?case
  proof (cases "x \<le> max_x b")
    case True
    from "1.prems" True obtain cs' x' where
      y: "y_loop sp i x (min_y b) (max_y b) cs = Inr cs'" and
      c: "checked (x + 1) = Inr x'" and
      r: "x_loop sp i b x' cs' = Inr r"
      by (subst (asm) x_loop.simps) (auto split: sum.splits)
    from c have x': "x' = x + 1" by (simp add: checked_Inr)
    from y_loop_Inr[OF y] have cs': "cs' = cs @ row_of sp i b x" by (simp add: row_of_def)
    from "1.IH"[OF True y c r] x' cs' True show ?thesis
      by (simp add: upto_rec1[of x "max_x b"])
  next
    case False
    with "1.prems" show ?thesis
      by (subst (asm) x_loop.simps) simp
  qed
qed

lemma x_loop_ok:
  "max_x b < INT_MAX \<Longrightarrow> INT_MIN \<le> x \<Longrightarrow> max_y b < INT_MAX \<Longrightarrow> INT_MIN \<le> min_y b \<Longrightarrow>
   x_loop sp i b x cs = Inr (cs @ concat (map (row_of sp i b) [x..max_x b]))"
proof (induction sp i b x cs rule: x_loop.induct)
  case (1 sp i b x cs)
  show ?case
  proof (cases "x \<le> max_x b")
    case True
    with "1.prems" have c: "checked (x + 1) = Inr (x + 1)"
      by (simp add: checked_def int_ok_def)
    have y: "y_loop sp i x (min_y b) (max_y b) cs = Inr (cs @ row_of sp i b x)"
      using "1.prems" by (simp add: y_loop_ok row_of_def)
    have "INT_MIN \<le> x + 1" using "1.prems" by simp
    from "1.IH"[OF True y c "1.prems"(1) this "1.prems"(3,4)] True c y show ?thesis
      by (subst x_loop.simps) (simp add: upto_rec1[of x "max_x b"])
  next
    case False
    then show ?thesis
      by (subst x_loop.simps) simp
  qed
qed


lemma scan_loop_Inr:
  "scan_loop sp i cs = Inr r \<Longrightarrow> 0 \<le> i \<Longrightarrow> i \<le> int (length (linear_bounds sp)) \<Longrightarrow>
   i \<le> num_scans sp \<and> num_scans sp \<le> int (length (linear_bounds sp)) \<and>
   r = cs @ concat (map (candidates_of_scan sp) [i..num_scans sp - 1])"
proof (induction sp i cs rule: scan_loop.induct)
  case (1 sp i cs)
  show ?case
  proof (cases "i = num_scans sp")
    case True
    with "1.prems" show ?thesis
      by (subst (asm) scan_loop.simps) (simp split: if_splits)
  next
    case False
    from "1.prems" False have rng: "0 \<le> i \<and> i < int (length (linear_bounds sp))"
      by (subst (asm) scan_loop.simps) (simp split: if_splits)
    define b where "b = linear_bounds sp ! nat i"
    from "1.prems" False rng obtain cs' i' where
      x: "x_loop sp i b (min_x b) cs = Inr cs'" and
      c: "checked (i + 1) = Inr i'" and
      r: "scan_loop sp i' cs' = Inr r"
      by (subst (asm) scan_loop.simps) (auto simp: b_def Let_def split: sum.splits)
    from c have i': "i' = i + 1" by (simp add: checked_Inr)
    from x_loop_Inr[OF x] have cs': "cs' = cs @ candidates_of_scan sp i"
      by (simp add: candidates_of_scan_def row_of_def b_def Let_def)
    have rng': "\<not> \<not> (0 \<le> i \<and> i < int (length (linear_bounds sp)))" using rng by simp
    have "0 \<le> i'" "i' \<le> int (length (linear_bounds sp))" using i' rng by simp_all
    from "1.IH"[OF False rng' b_def x c r this]
    have ih: "i' \<le> num_scans sp" "num_scans sp \<le> int (length (linear_bounds sp))"
      "r = cs' @ concat (map (candidates_of_scan sp) [i'..num_scans sp - 1])"
      by simp_all
    from ih i' have le: "i \<le> num_scans sp - 1" by simp
    from ih cs' i' le show ?thesis
      by (simp add: upto_rec1[of i "num_scans sp - 1"])
  qed
qed

lemma scan_loop_ok:
  "0 \<le> i \<Longrightarrow> i \<le> num_scans sp \<Longrightarrow> num_scans sp \<le> int (length (linear_bounds sp)) \<Longrightarrow>
   num_scans sp \<le> INT_MAX \<Longrightarrow>
   (\<And>j. i \<le> j \<Longrightarrow> j < num_scans sp \<Longrightarrow> bounds_in_range (linear_bounds sp ! nat j)) \<Longrightarrow>
   scan_loop sp i cs = Inr (cs @ concat (map (candidates_of_scan sp) [i..num_scans sp - 1]))"
proof (induction sp i cs rule: scan_loop.induct)
  case (1 sp i cs)
  show ?case
  proof (cases "i = num_scans sp")
    case True
    then show ?thesis
      by (subst scan_loop.simps) simp
  next
    case False
    with "1.prems" have lt: "i < num_scans sp" by simp
    with "1.prems" have rng: "0 \<le> i \<and> i < int (length (linear_bounds sp))" by simp
    define b where "b = linear_bounds sp ! nat i"
    have bir: "bounds_in_range b" using "1.prems"(5)[of i] lt by (simp add: b_def)
    have x: "x_loop sp i b (min_x b) cs = Inr (cs @ candidates_of_scan sp i)"
      using bir
      by (simp add: x_loop_ok bounds_in_range_def candidates_of_scan_def row_of_def b_def Let_def)
    have c: "checked (i + 1) = Inr (i + 1)"
      using lt "1.prems" by (simp add: checked_def int_ok_def INT_MIN_def)
    have rng': "\<not> \<not> (0 \<le> i \<and> i < int (length (linear_bounds sp)))" using rng by simp
    have ih: "scan_loop sp (i + 1) (cs @ candidates_of_scan sp i) =
        Inr ((cs @ candidates_of_scan sp i) @
             concat (map (candidates_of_scan sp) [i + 1..num_scans sp - 1]))"
      using "1.prems" lt by (intro "1.IH"[OF False rng' b_def x c]) auto
    from lt have le: "i \<le> num_scans sp - 1" by simp
    show ?thesis
      using False rng x c ih
      by (subst scan_loop.simps) (simp add: upto_rec1[OF le] b_def[symmetric] Let_def)
  qed
qed

lemma num_linear_candidates_Inr:
  "num_linear_candidates lo hi = Inr n \<Longrightarrow> n = hi - lo + 1"
  by (auto simp: num_linear_candidates_def dest: checked_Inr split: sum.splits)

lemma num_linear_candidates_ok:
  "lo \<le> hi + 1 \<Longrightarrow> hi - lo < INT_MAX \<Longrightarrow> num_linear_candidates lo hi = Inr (hi - lo + 1)"
  by (simp add: num_linear_candidates_def checked_def int_ok_def INT_MIN_def INT_MAX_def)

lemma count_loop_Inr:
  "count_loop sp i n = Inr r \<Longrightarrow> 0 \<le> i \<Longrightarrow> i \<le> int (length (linear_bounds sp)) \<Longrightarrow>
   i \<le> num_scans sp \<and> num_scans sp \<le> int (length (linear_bounds sp)) \<and>
   r = n + sum_list (map (\<lambda>j. cell_count (linear_bounds sp ! nat j)) [i..num_scans sp - 1])"
proof (induction sp i n rule: count_loop.induct)
  case (1 sp i n)
  show ?case
  proof (cases "i = num_scans sp")
    case True
    with "1.prems" show ?thesis
      by (subst (asm) count_loop.simps) simp
  next
    case False
    from "1.prems" False have rng: "0 \<le> i \<and> i < int (length (linear_bounds sp))"
      by (subst (asm) count_loop.simps) (simp split: if_splits)
    define b where "b = linear_bounds sp ! nat i"
    from "1.prems" False rng obtain nx ny p n' i' where
      nx: "num_linear_candidates (min_x b) (max_x b) = Inr nx" and
      ny: "num_linear_candidates (min_y b) (max_y b) = Inr ny" and
      p: "checked (nx * ny) = Inr p" and
      n': "checked (n + p) = Inr n'" and
      c: "checked (i + 1) = Inr i'" and
      r: "count_loop sp i' n' = Inr r"
      by (subst (asm) count_loop.simps) (auto simp: b_def Let_def split: sum.splits)
    have rng': "\<not> \<not> (0 \<le> i \<and> i < int (length (linear_bounds sp)))" using rng by simp
    from c have i': "i' = i + 1" by (simp add: checked_Inr)
    then have "0 \<le> i'" "i' \<le> int (length (linear_bounds sp))" using rng by simp_all
    from "1.IH"[OF False rng' b_def nx ny p n' c r this]
    have ih: "i' \<le> num_scans sp" "num_scans sp \<le> int (length (linear_bounds sp))"
      "r = n' + sum_list (map (\<lambda>j. cell_count (linear_bounds sp ! nat j)) [i'..num_scans sp - 1])"
      by simp_all
    have n'_eq: "n' = n + cell_count b"
      using num_linear_candidates_Inr[OF nx] num_linear_candidates_Inr[OF ny]
        checked_Inr[OF p] checked_Inr[OF n']
      by (simp add: cell_count_def)
    from ih i' have le: "i \<le> num_scans sp - 1" by simp
    show ?thesis
      using ih n'_eq i' le by (simp add: upto_rec1[OF le] b_def)
  qed
qed


lemma cell_count_nonneg: "bounds_not_inverted b \<Longrightarrow> 0 \<le> cell_count b"
  by (simp add: bounds_not_inverted_def cell_count_def)

lemma sum_cell_count_nonneg:
  "(\<And>j. i \<le> j \<Longrightarrow> j < n \<Longrightarrow> bounds_not_inverted (bs ! nat j)) \<Longrightarrow>
   0 \<le> sum_list (map (\<lambda>j. cell_count (bs ! nat j)) [i..n - 1])"
  by (rule sum_list_nonneg) (auto intro: cell_count_nonneg)

lemma count_loop_ok:
  "0 \<le> i \<Longrightarrow> i \<le> num_scans sp \<Longrightarrow> num_scans sp \<le> int (length (linear_bounds sp)) \<Longrightarrow>
   num_scans sp \<le> INT_MAX \<Longrightarrow>
   (\<And>j. i \<le> j \<Longrightarrow> j < num_scans sp \<Longrightarrow>
      bounds_not_inverted (linear_bounds sp ! nat j) \<and> bounds_in_range (linear_bounds sp ! nat j)) \<Longrightarrow>
   0 \<le> n \<Longrightarrow>
   n + sum_list (map (\<lambda>j. cell_count (linear_bounds sp ! nat j)) [i..num_scans sp - 1]) \<le> INT_MAX \<Longrightarrow>
   count_loop sp i n =
     Inr (n + sum_list (map (\<lambda>j. cell_count (linear_bounds sp ! nat j)) [i..num_scans sp - 1]))"
proof (induction sp i n rule: count_loop.induct)
  case (1 sp i n)
  show ?case
  proof (cases "i = num_scans sp")
    case True
    then show ?thesis
      by (subst count_loop.simps) simp
  next
    case False
    with "1.prems" have lt: "i < num_scans sp" by simp
    then have le: "i \<le> num_scans sp - 1" by simp
    from lt "1.prems" have rng: "0 \<le> i \<and> i < int (length (linear_bounds sp))" by simp
    have rng': "\<not> \<not> (0 \<le> i \<and> i < int (length (linear_bounds sp)))" using rng by simp
    define b where "b = linear_bounds sp ! nat i"
    define rest where
      "rest = sum_list (map (\<lambda>j. cell_count (linear_bounds sp ! nat j)) [i + 1..num_scans sp - 1])"
    have bni: "bounds_not_inverted b" and sir: "bounds_in_range b"
      using "1.prems"(5)[of i] lt by (simp_all add: b_def)
    have nx: "num_linear_candidates (min_x b) (max_x b) = Inr (max_x b - min_x b + 1)"
      using bni sir
      by (simp add: num_linear_candidates_ok bounds_not_inverted_def bounds_in_range_def)
    have ny: "num_linear_candidates (min_y b) (max_y b) = Inr (max_y b - min_y b + 1)"
      using bni sir
      by (simp add: num_linear_candidates_ok bounds_not_inverted_def bounds_in_range_def)
    have rest0: "0 \<le> rest"
      unfolding rest_def using "1.prems"(5) by (intro sum_cell_count_nonneg) auto
    have total: "n + cell_count b + rest \<le> INT_MAX"
      using "1.prems"(7) by (simp add: upto_rec1[OF le] b_def rest_def)
    have cc0: "0 \<le> cell_count b" using bni by (rule cell_count_nonneg)
    have p: "checked ((max_x b - min_x b + 1) * (max_y b - min_y b + 1)) = Inr (cell_count b)"
      using cc0 total rest0 "1.prems"(6)
      by (simp add: checked_def int_ok_def cell_count_def INT_MIN_def)
    have n': "checked (n + cell_count b) = Inr (n + cell_count b)"
      using cc0 total rest0 "1.prems"(6) by (simp add: checked_def int_ok_def INT_MIN_def)
    have c: "checked (i + 1) = Inr (i + 1)"
      using lt "1.prems" by (simp add: checked_def int_ok_def INT_MIN_def)
    have ih: "count_loop sp (i + 1) (n + cell_count b) = Inr (n + cell_count b + rest)"
      unfolding rest_def
      using "1.prems" lt cc0 total
      by (intro "1.IH"[OF False rng' b_def nx ny p n' c]) (auto simp: rest_def)
    show ?thesis
      using False rng nx ny p n' c ih
      by (subst count_loop.simps)
         (simp add: upto_rec1[OF le] b_def[symmetric] Let_def rest_def)
  qed
qed

lemma length_row_of: "length (row_of sp i b x) = nat (max_y b - min_y b + 1)"
  by (simp add: row_of_def)

lemma length_concat_rows:
  "length (concat (map (row_of sp i b) xs)) = length xs * nat (max_y b - min_y b + 1)"
  by (induction xs) (simp_all add: length_row_of)

lemma length_candidates_of_scan:
  "bounds_not_inverted (linear_bounds sp ! nat i) \<Longrightarrow>
   int (length (candidates_of_scan sp i)) = cell_count (linear_bounds sp ! nat i)"
  by (simp add: candidates_of_scan_def Let_def length_concat_rows cell_count_def
      bounds_not_inverted_def)

lemma length_concat_candidates_of_scan:
  "(\<And>j. j \<in> set js \<Longrightarrow> bounds_not_inverted (linear_bounds sp ! nat j)) \<Longrightarrow>
   int (length (concat (map (candidates_of_scan sp) js))) =
     sum_list (map (\<lambda>j. cell_count (linear_bounds sp ! nat j)) js)"
  by (induction js) (simp_all add: length_candidates_of_scan)

lemma list_all_take_nth:
  "list_all P (take (nat n) xs) \<Longrightarrow> 0 \<le> j \<Longrightarrow> j < n \<Longrightarrow> n \<le> int (length xs) \<Longrightarrow> P (xs ! nat j)"
  by (auto simp: list_all_length)

lemma length_enumeration:
  assumes "search_parameters_ok sp" and "no_inverted_bounds sp"
  shows "int (length (enumeration sp)) = expected_num_candidates sp"
  unfolding enumeration_def expected_num_candidates_def
  using assms
  by (intro length_concat_candidates_of_scan)
     (auto simp: search_parameters_ok_def no_inverted_bounds_def intro: list_all_take_nth)

lemma Generate_Inr_count:
  assumes "GenerateExhaustiveSearchCandidates sp = Inr candidates"
  shows "int (length candidates) = expected_num_candidates sp"
proof -
  from assms obtain n where cnt: "count_loop sp 0 0 = Inr n" and len: "int (length candidates) = n"
    by (auto simp: GenerateExhaustiveSearchCandidates_def split: sum.splits if_splits)
  from count_loop_Inr[OF cnt] len show ?thesis
    by (simp add: expected_num_candidates_def)
qed

lemma count_loop_inverted: "count_loop sp_inverted 0 0 = Inr 9"
  by (simp add: count_loop.simps[of _ 0] count_loop.simps[of _ 1] sp_inverted_def
      num_linear_candidates_def checked_def int_ok_def INT_MAX_def INT_MIN_def)

lemma scan_loop_inverted: "scan_loop sp_inverted 0 [] = Inr []"
  by (simp add: scan_loop.simps[of _ 0] scan_loop.simps[of _ 1] x_loop.simps sp_inverted_def
      checked_def int_ok_def INT_MAX_def INT_MIN_def)

text \<open>
  Claim C3, amended. For search parameters with \<open>num_scans\<close> sets of linear bounds, none
  of them inverted (\<open>min \<le> max + 1\<close> on both axes) and all \<^verbatim>\<open>int\<close> arithmetic in range,
  \<open>GenerateExhaustiveSearchCandidates\<close> returns the enumeration, and the number of its
  candidates is the sum over the scan indices of
  \<open>(max_x - min_x + 1) * (max_y - min_y + 1)\<close>: the final check passes. For all search
  parameters, a list that is returned has as many candidates as that sum; when both loops
  complete and the precomputed count, not negative, differs from the number of candidates
  produced, the result is the failed check of line 115 and no list.
\<close>

theorem C3_candidate_count_matches:
  assumes ok: "search_parameters_ok sp"
    and ni: "no_inverted_bounds sp"
    and total: "expected_num_candidates sp \<le> INT_MAX"
  shows "GenerateExhaustiveSearchCandidates sp = Inr (enumeration sp) \<and>
         int (length (enumeration sp)) = expected_num_candidates sp \<and>
         (\<forall>sp' candidates.
            GenerateExhaustiveSearchCandidates sp' = Inr candidates \<longrightarrow>
            int (length candidates) = expected_num_candidates sp') \<and>
         (\<forall>sp' n candidates.
            count_loop sp' 0 0 = Inr n \<and> 0 \<le> n \<and> scan_loop sp' 0 [] = Inr candidates \<and>
            int (length candidates) \<noteq> n \<longrightarrow>
            GenerateExhaustiveSearchCandidates sp' = Inl CheckFailed)"
proof -
  from ok have n0: "0 \<le> num_scans sp" and nl: "num_scans sp \<le> int (length (linear_bounds sp))"
    and nm: "num_scans sp \<le> INT_MAX"
    by (simp_all add: search_parameters_ok_def)
  have bir: "bounds_in_range (linear_bounds sp ! nat j)" if "0 \<le> j" "j < num_scans sp" for j
    using ok that nl by (auto simp: search_parameters_ok_def intro: list_all_take_nth)
  have bni: "bounds_not_inverted (linear_bounds sp ! nat j)" if "0 \<le> j" "j < num_scans sp" for j
    using ni that nl by (auto simp: no_inverted_bounds_def intro: list_all_take_nth)
  have len: "int (length (enumeration sp)) = expected_num_candidates sp"
    using ok ni by (rule length_enumeration)
  have cnt: "count_loop sp 0 0 = Inr (expected_num_candidates sp)"
    using count_loop_ok[of 0 sp 0] n0 nl nm bir bni total
    by (simp add: expected_num_candidates_def)
  have scn: "scan_loop sp 0 [] = Inr (enumeration sp)"
    using scan_loop_ok[of 0 sp "[]"] n0 nl nm bir by (simp add: enumeration_def)
  have nonneg: "0 \<le> expected_num_candidates sp"
    unfolding expected_num_candidates_def using bni by (intro sum_cell_count_nonneg) auto
  have returns: "GenerateExhaustiveSearchCandidates sp = Inr (enumeration sp)"
    using cnt scn len nonneg by (simp add: GenerateExhaustiveSearchCandidates_def)
  have matched: "int (length candidates) = expected_num_candidates sp'"
    if "GenerateExhaustiveSearchCandidates sp' = Inr candidates" for sp' candidates
    using that by (rule Generate_Inr_count)
  have fatal: "GenerateExhaustiveSearchCandidates sp' = Inl CheckFailed"
    if "count_loop sp' 0 0 = Inr n \<and> 0 \<le> n \<and> scan_loop sp' 0 [] = Inr candidates \<and>
        int (length candidates) \<noteq> n" for sp' n candidates
    using that by (simp add: GenerateExhaustiveSearchCandidates_def)
  from returns len matched fatal show ?thesis by blast
qed

theorem C3_candidate_count_matches_witness:
  "GenerateExhaustiveSearchCandidates sp_small = Inr (enumeration sp_small) \<and>
   int (length (enumeration sp_small)) = expected_num_candidates sp_small \<and>
   expected_num_candidates sp_small = 6 \<and>
   GenerateExhaustiveSearchCandidates sp_inverted = Inl CheckFailed"
proof -
  have ok: "search_parameters_ok sp_small"
    by (simp add: search_parameters_ok_def sp_small_def bounds_in_range_def INT_MAX_def
        INT_MIN_def)
  have ni: "no_inverted_bounds sp_small"
    by (simp add: no_inverted_bounds_def sp_small_def bounds_not_inverted_def)
  have six: "expected_num_candidates sp_small = 6"
    by (simp add: expected_num_candidates_def sp_small_def cell_count_def)
  then have total: "expected_num_candidates sp_small \<le> INT_MAX"
    by (simp add: INT_MAX_def)
  note inst = C3_candidate_count_matches[OF ok ni total]
  from inst have small: "GenerateExhaustiveSearchCandidates sp_small = Inr (enumeration sp_small)"
    by blast
  from inst small have len: "int (length (enumeration sp_small)) = expected_num_candidates sp_small"
    by blast
  have mismatch: "count_loop sp_inverted 0 0 = Inr 9 \<and> (0 :: int) \<le> 9 \<and>
      scan_loop sp_inverted 0 [] = Inr [] \<and> int (length ([] :: Candidate2D list)) \<noteq> 9"
    using count_loop_inverted scan_loop_inverted by simp
  from inst mismatch have "GenerateExhaustiveSearchCandidates sp_inverted = Inl CheckFailed"
    by blast
  with small len six show ?thesis by simp
qed

text \<open>
  Claim C3 as stated, for every value of the search parameters, fails: with the bounds
  \<open>2 .. -2\<close> on both axes the precomputed count is \<open>(-3) * (-3) = 9\<close>, the loops produce
  no candidate, and the check of line 115 fires.
\<close>

theorem C3_every_search_parameters_counterexample:
  "GenerateExhaustiveSearchCandidates sp_inverted = Inl CheckFailed \<and>
   scan_loop sp_inverted 0 [] = Inr [] \<and>
   expected_num_candidates sp_inverted = 9"
proof -
  have nine: "expected_num_candidates sp_inverted = 9"
    by (simp add: expected_num_candidates_def sp_inverted_def cell_count_def)
  show ?thesis
    using count_loop_inverted scan_loop_inverted nine
    by (simp add: GenerateExhaustiveSearchCandidates_def)
qed

section \<open>The raw scores\<close>

lemma proposed_xy_index_eq:
  "proposed_xy_index c x_off y_off =
     (if int_ok (fst c + x_off) \<and> int_ok (snd c + y_off)
      then Inr (fst c + x_off, snd c + y_off) else Inl SignedOverflow)"
  by (simp add: proposed_xy_index_def checked_def)

lemma probability_loop_eq:
  "probability_loop g ds x_off y_off acc =
     (if cells_in_int_range (shifted_cells ds x_off y_off)
      then Inr (acc + sum_list (map g (shifted_cells ds x_off y_off)))
      else Inl SignedOverflow)"
  by (induction ds arbitrary: acc)
     (simp_all add: proposed_xy_index_eq cells_in_int_range_def shifted_cells_def)

lemma tsdf_loop_eq:
  "tsdf_loop g m ds x_off y_off cs sw =
     (if cells_in_int_range (shifted_cells ds x_off y_off)
      then Inr (cs + sum_list (map (\<lambda>c. normalized_proximity m (g c) * snd (g c))
                                  (shifted_cells ds x_off y_off)),
                sw + sum_list (map (\<lambda>c. snd (g c)) (shifted_cells ds x_off y_off)))
      else Inl SignedOverflow)"
  by (induction ds arbitrary: cs sw)
     (simp_all add: proposed_xy_index_eq cells_in_int_range_def shifted_cells_def
        normalized_proximity_def Let_def)

text \<open>
  Claim C5. For a probability grid the raw score of a candidate is the arithmetic mean of
  the probabilities of the cells of its discrete scan shifted by its offsets; a mean that is
  not positive (the mean over an empty scan included) fails the check of line 75 instead of
  being returned. The only other outcome is the overflow of a shifted index.
\<close>

theorem C5_probability_grid_score:
  "ComputeCandidateScore (ProbabilityGrid l GetProbability) discrete_scan x_off y_off =
     (if \<not> cells_in_int_range (shifted_cells discrete_scan x_off y_off) then Inl SignedOverflow
      else if 0 < arithmetic_mean (map GetProbability (shifted_cells discrete_scan x_off y_off))
      then Inr (arithmetic_mean (map GetProbability (shifted_cells discrete_scan x_off y_off)))
      else Inl CheckFailed)"
proof -
  have len: "length (shifted_cells discrete_scan x_off y_off) = length discrete_scan"
    by (simp add: shifted_cells_def)
  show ?thesis
    by (simp add: ComputeCandidateScore_def ComputeCandidateScore_ProbabilityGrid_def
        probability_loop_eq arithmetic_mean_def len Let_def)
qed

theorem C5_probability_grid_score_witness:
  "ComputeCandidateScore grid_two_peaks [(0, 0), (5, 5)] 1 0 = Inr (1 / 2) \<and>
   ComputeCandidateScore (ProbabilityGrid \<lparr>limits_resolution = 1\<rparr> (\<lambda>c. 0)) [(0, 0)] 1 0 =
     Inl CheckFailed \<and>
   ComputeCandidateScore grid_two_peaks [] 1 0 = Inl CheckFailed"
proof -
  have a: "ComputeCandidateScore grid_two_peaks [(0, 0), (5, 5)] 1 0 = Inr (1 / 2)"
    unfolding grid_two_peaks_def
    by (subst C5_probability_grid_score)
       (simp add: shifted_cells_def cells_in_int_range_def arithmetic_mean_def int_ok_def
          INT_MAX_def INT_MIN_def)
  have b: "ComputeCandidateScore (ProbabilityGrid \<lparr>limits_resolution = 1\<rparr> (\<lambda>c. 0)) [(0, 0)] 1 0 =
     Inl CheckFailed"
    by (subst C5_probability_grid_score)
       (simp add: shifted_cells_def cells_in_int_range_def arithmetic_mean_def int_ok_def
          INT_MAX_def INT_MIN_def)
  have c: "ComputeCandidateScore grid_two_peaks [] 1 0 = Inl CheckFailed"
    unfolding grid_two_peaks_def
    by (subst C5_probability_grid_score)
       (simp add: shifted_cells_def cells_in_int_range_def arithmetic_mean_def)
  show ?thesis using a b c by simp
qed

text \<open>
  Claim C6. For a TSDF with a non-zero maximal correspondence cost the raw score is the
  weighted mean of \<open>(max_cost - |tsd|) / max_cost\<close> over the shifted cells, with the
  weights of the cells; when the weights sum to zero the function returns zero and no check
  fires. (A negative weighted mean fails the check of line 59.)
\<close>

theorem C6_tsdf_score:
  assumes "max_cost \<noteq> 0"
  shows "ComputeCandidateScore (TSDF2D l GetTSDAndWeight max_cost) discrete_scan x_off y_off =
     (let cells = shifted_cells discrete_scan x_off y_off;
          values_and_weights =
            map (\<lambda>c. (normalized_proximity max_cost (GetTSDAndWeight c),
                       snd (GetTSDAndWeight c))) cells
      in if \<not> cells_in_int_range cells then Inl SignedOverflow
         else if sum_list (map snd values_and_weights) = 0 then Inr 0
         else if 0 \<le> weighted_mean values_and_weights
         then Inr (weighted_mean values_and_weights)
         else Inl CheckFailed)"
  by (simp add: ComputeCandidateScore_def ComputeCandidateScore_TSDF2D_def tsdf_loop_eq
      weighted_mean_def Let_def comp_def)

theorem C6_tsdf_score_witness:
  "ComputeCandidateScore (TSDF2D \<lparr>limits_resolution = 1\<rparr> (\<lambda>c. (1 / 2, 2)) 1)
     [(0, 0), (1, 0)] 1 0 = Inr (1 / 2) \<and>
   ComputeCandidateScore (TSDF2D \<lparr>limits_resolution = 1\<rparr> (\<lambda>c. (1 / 2, 0)) 1)
     [(0, 0), (1, 0)] 1 0 = Inr 0"
proof -
  have m: "(1::real) \<noteq> 0" by simp
  have a: "ComputeCandidateScore (TSDF2D \<lparr>limits_resolution = 1\<rparr> (\<lambda>c. (1 / 2, 2)) 1)
     [(0, 0), (1, 0)] 1 0 = Inr (1 / 2)"
    using C6_tsdf_score[OF m, of "\<lparr>limits_resolution = 1\<rparr>" "\<lambda>c. (1 / 2, 2)" "[(0, 0), (1, 0)]" 1 0]
    by (simp add: shifted_cells_def cells_in_int_range_def int_ok_def INT_MAX_def INT_MIN_def
        weighted_mean_def normalized_proximity_def)
  have b: "ComputeCandidateScore (TSDF2D \<lparr>limits_resolution = 1\<rparr> (\<lambda>c. (1 / 2, 0)) 1)
     [(0, 0), (1, 0)] 1 0 = Inr 0"
    using C6_tsdf_score[OF m, of "\<lparr>limits_resolution = 1\<rparr>" "\<lambda>c. (1 / 2, 0)" "[(0, 0), (1, 0)]" 1 0]
    by (simp add: shifted_cells_def cells_in_int_range_def int_ok_def INT_MAX_def INT_MIN_def
        weighted_mean_def normalized_proximity_def)
  show ?thesis using a b by simp
qed

section \<open>The penalty on the score\<close>

lemma ScoreCandidates_Inr:
  "ScoreCandidates options grid discrete_scans sp candidates = Inr scored \<Longrightarrow>
   list_all2 (scored_as options grid discrete_scans) candidates scored"
proof (induction candidates arbitrary: scored)
  case Nil
  then show ?case by simp
next
  case (Cons c cs)
  from Cons.prems obtain raw rest' where
    rng: "0 \<le> scan_index c \<and> scan_index c < int (length discrete_scans)" and
    raw: "ComputeCandidateScore grid (discrete_scans ! nat (scan_index c))
            (x_index_offset c) (y_index_offset c) = Inr raw" and
    rest: "ScoreCandidates options grid discrete_scans sp cs = Inr rest'" and
    scored: "scored = c\<lparr>score := raw * score_factor options c\<rparr> # rest'"
    by (auto split: if_splits sum.splits)
  from Cons.IH[OF rest] rng raw scored show ?case
    by (auto simp: scored_as_def)
qed

lemma score_factor_eq:
  "score_factor options c =
     exp (- ((sqrt ((metric_x c)\<^sup>2 + (metric_y c)\<^sup>2) * translation_delta_cost_weight options
              + \<bar>orientation c\<bar> * rotation_delta_cost_weight options)\<^sup>2))"
  by (simp add: score_factor_def Pow2_def hypot_def power2_eq_square)

text \<open>
  Claim C1, amended. Every candidate that \<open>ScoreCandidates\<close> returns keeps its fields
  but the score, which is the raw score of the grid times
  \<open>exp (- (offset_distance * translation_delta_cost_weight
            + |orientation| * rotation_delta_cost_weight)\<^sup>2)\<close>:
  the weighted sum is squared as a whole, and the offset distance enters it unsquared.
\<close>

theorem C1_score_factor:
  assumes "ScoreCandidates options grid discrete_scans sp candidates = Inr scored"
    and "k < length candidates"
  shows "\<exists>raw.
     ComputeCandidateScore grid (discrete_scans ! nat (scan_index (candidates ! k)))
       (x_index_offset (candidates ! k)) (y_index_offset (candidates ! k)) = Inr raw \<and>
     scored ! k = (candidates ! k)
       \<lparr>score := raw *
          exp (- ((sqrt ((metric_x (candidates ! k))\<^sup>2 + (metric_y (candidates ! k))\<^sup>2)
                     * translation_delta_cost_weight options
                   + \<bar>orientation (candidates ! k)\<bar> * rotation_delta_cost_weight options)\<^sup>2))\<rparr>"
proof -
  from ScoreCandidates_Inr[OF assms(1)] assms(2)
  have "scored_as options grid discrete_scans (candidates ! k) (scored ! k)"
    by (simp add: list_all2_conv_all_nth)
  then show ?thesis
    by (auto simp: scored_as_def score_factor_eq)
qed

lemma ScoreCandidates_one_step:
  "ScoreCandidates options_tw2 grid_half [[(0, 0)]] sp_small [Candidate2D_ctor 0 1 0 sp_small] =
     Inr [(Candidate2D_ctor 0 1 0 sp_small)\<lparr>score := 1 / 2 * exp (- 4)\<rparr>]"
  by (simp add: Candidate2D_ctor_def sp_small_def grid_half_def options_tw2_def
      ComputeCandidateScore_def ComputeCandidateScore_ProbabilityGrid_def
      proposed_xy_index_eq int_ok_def INT_MAX_def INT_MIN_def score_factor_def Pow2_def
      hypot_def)

theorem C1_score_factor_witness:
  "\<exists>raw.
     ComputeCandidateScore grid_half [(0, 0)] 1 0 = Inr raw \<and>
     [(Candidate2D_ctor 0 1 0 sp_small)\<lparr>score := 1 / 2 * exp (- 4)\<rparr>] ! 0 =
       (Candidate2D_ctor 0 1 0 sp_small)\<lparr>score := raw * exp (- ((sqrt (1\<^sup>2 + 0\<^sup>2) * 2 + \<bar>0\<bar> * 0)\<^sup>2))\<rparr>"
  using C1_score_factor[OF ScoreCandidates_one_step, of 0]
  by (simp add: Candidate2D_ctor_def sp_small_def options_tw2_def)

text \<open>
  Claim C1 as stated fails: with translation weight 2, rotation weight 0 and a candidate one
  cell away on a grid of resolution 1, the code multiplies the raw score \<open>1 / 2\<close> by
  \<open>exp (- 4)\<close>, the formula of the spec gives \<open>exp (- 2)\<close>.
\<close>

theorem C1_spec_formula_counterexample:
  "ScoreCandidates options_tw2 grid_half [[(0, 0)]] sp_small [Candidate2D_ctor 0 1 0 sp_small] =
     Inr [(Candidate2D_ctor 0 1 0 sp_small)\<lparr>score := 1 / 2 * exp (- 4)\<rparr>] \<and>
   ComputeCandidateScore grid_half [(0, 0)] 1 0 = Inr (1 / 2) \<and>
   spec_score_factor options_tw2 (Candidate2D_ctor 0 1 0 sp_small) = exp (- 2) \<and>
   1 / 2 * exp (- 4) \<noteq> 1 / 2 * spec_score_factor options_tw2 (Candidate2D_ctor 0 1 0 sp_small)"
proof -
  have raw: "ComputeCandidateScore grid_half [(0, 0)] 1 0 = Inr (1 / 2)"
    by (simp add: grid_half_def ComputeCandidateScore_def
        ComputeCandidateScore_ProbabilityGrid_def proposed_xy_index_eq int_ok_def INT_MAX_def
        INT_MIN_def)
  have spec: "spec_score_factor options_tw2 (Candidate2D_ctor 0 1 0 sp_small) = exp (- 2)"
    by (simp add: spec_score_factor_def options_tw2_def Candidate2D_ctor_def sp_small_def
        hypot_def)
  have ne: "exp (- 4 :: real) \<noteq> exp (- 2)" by simp
  show ?thesis
    using ScoreCandidates_one_step raw spec ne by simp
qed

section \<open>The output pointer\<close>

text \<open>
  Claim C9 at a null output pointer. The exhaustive search stops at the check of line 123
  before anything is computed. The two fine aligners have no such check: they run the
  registration and then write through the null pointer (lines 203 and 262).
\<close>

theorem C9_null_output_pointer:
  "Match ext options initial_pose_estimate point_cloud grid None = Inl CheckFailed \<and>
   Match_icp pcl initial_pose_estimate point_cloud matching_submap None = Inl NullDereference \<and>
   Match_ndt pcl initial_pose_estimate point_cloud matching_submap None = Inl NullDereference"
  by (simp add: Match_def Match_icp_def Match_ndt_def Let_def)

section \<open>The order of the enumeration\<close>

lemma sorted_wrt_concat_map:
  fixes js :: "int list"
  assumes "sorted_wrt (<) js"
    and "\<And>j. j \<in> set js \<Longrightarrow> sorted_wrt R (f j)"
    and "\<And>j j' u v. j \<in> set js \<Longrightarrow> j' \<in> set js \<Longrightarrow> j < j' \<Longrightarrow> u \<in> set (f j) \<Longrightarrow>
           v \<in> set (f j') \<Longrightarrow> R u v"
  shows "sorted_wrt R (concat (map f js))"
  using assms
proof (induction js)
  case Nil
  then show ?case by simp
next
  case (Cons j js)
  have "sorted_wrt R (concat (map f js))"
  proof (rule Cons.IH)
    show "sorted_wrt (<) js" using Cons.prems(1) by simp
  next
    fix i assume "i \<in> set js"
    then show "sorted_wrt R (f i)" using Cons.prems(2) by simp
  next
    fix i i' u v
    assume "i \<in> set js" "i' \<in> set js" "i < i'" "u \<in> set (f i)" "v \<in> set (f i')"
    then show "R u v" using Cons.prems(3)[of i i' u v] by simp
  qed
  moreover have "sorted_wrt R (f j)" using Cons.prems(2) by simp
  moreover have "\<forall>u\<in>set (f j). \<forall>v\<in>set (concat (map f js)). R u v"
  proof (intro ballI)
    fix u v
    assume u: "u \<in> set (f j)" and v: "v \<in> set (concat (map f js))"
    from v obtain i' where i': "i' \<in> set js" "v \<in> set (f i')" by auto
    from Cons.prems(1) i' have "j < i'" by simp
    with u i' show "R u v" using Cons.prems(3)[of j i' u v] by simp
  qed
  ultimately show ?case by (simp add: sorted_wrt_append)
qed

lemma key_Candidate2D_ctor: "enumeration_key (Candidate2D_ctor i x y sp) = (i, x, y)"
  by (simp add: enumeration_key_def Candidate2D_ctor_def)

lemma set_row_of: "set (row_of sp i b x) = (\<lambda>y. Candidate2D_ctor i x y sp) ` {min_y b..max_y b}"
  by (simp add: row_of_def)

lemma sorted_row_of:
  "sorted_wrt (\<lambda>c c'. key_less (enumeration_key c) (enumeration_key c')) (row_of sp i b x)"
  by (simp add: row_of_def sorted_wrt_map key_Candidate2D_ctor key_less_def)

lemma sorted_candidates_of_scan:
  "sorted_wrt (\<lambda>c c'. key_less (enumeration_key c) (enumeration_key c'))
     (candidates_of_scan sp i)"
  unfolding candidates_of_scan_def Let_def
proof (rule sorted_wrt_concat_map)
  show "sorted_wrt (<) [min_x (linear_bounds sp ! nat i)..max_x (linear_bounds sp ! nat i)]"
    by simp
next
  fix x
  show "sorted_wrt (\<lambda>c c'. key_less (enumeration_key c) (enumeration_key c'))
          (row_of sp i (linear_bounds sp ! nat i) x)"
    by (rule sorted_row_of)
next
  fix x x' :: int and u v
  assume "x < x'" "u \<in> set (row_of sp i (linear_bounds sp ! nat i) x)"
    "v \<in> set (row_of sp i (linear_bounds sp ! nat i) x')"
  then show "key_less (enumeration_key u) (enumeration_key v)"
    by (auto simp: set_row_of key_Candidate2D_ctor key_less_def)
qed

lemma in_candidates_of_scan:
  "c \<in> set (candidates_of_scan sp i) \<Longrightarrow>
   scan_index c = i \<and>
   min_x (linear_bounds sp ! nat i) \<le> x_index_offset c \<and>
   x_index_offset c \<le> max_x (linear_bounds sp ! nat i) \<and>
   min_y (linear_bounds sp ! nat i) \<le> y_index_offset c \<and>
   y_index_offset c \<le> max_y (linear_bounds sp ! nat i)"
  by (auto simp: candidates_of_scan_def Let_def set_row_of Candidate2D_ctor_def)

lemma in_enumeration:
  "c \<in> set (enumeration sp) \<Longrightarrow>
   0 \<le> scan_index c \<and> scan_index c < num_scans sp \<and>
   min_x (linear_bounds sp ! nat (scan_index c)) \<le> x_index_offset c \<and>
   x_index_offset c \<le> max_x (linear_bounds sp ! nat (scan_index c)) \<and>
   min_y (linear_bounds sp ! nat (scan_index c)) \<le> y_index_offset c \<and>
   y_index_offset c \<le> max_y (linear_bounds sp ! nat (scan_index c))"
  by (auto simp: enumeration_def dest: in_candidates_of_scan)

lemma sorted_enumeration:
  "sorted_wrt (\<lambda>c c'. key_less (enumeration_key c) (enumeration_key c')) (enumeration sp)"
  unfolding enumeration_def
proof (rule sorted_wrt_concat_map)
  show "sorted_wrt (<) [0..num_scans sp - 1]" by simp
next
  fix j
  show "sorted_wrt (\<lambda>c c'. key_less (enumeration_key c) (enumeration_key c'))
          (candidates_of_scan sp j)"
    by (rule sorted_candidates_of_scan)
next
  fix j j' :: int and u v
  assume "j < j'" "u \<in> set (candidates_of_scan sp j)" "v \<in> set (candidates_of_scan sp j')"
  then show "key_less (enumeration_key u) (enumeration_key v)"
    by (auto simp: key_less_def enumeration_key_def dest!: in_candidates_of_scan)
qed

lemma Generate_Inr:
  assumes "GenerateExhaustiveSearchCandidates sp = Inr candidates"
  shows "candidates = enumeration sp"
proof -
  from assms have "scan_loop sp 0 [] = Inr candidates"
    by (auto simp: GenerateExhaustiveSearchCandidates_def split: sum.splits if_splits)
  from scan_loop_Inr[OF this] show ?thesis
    by (simp add: enumeration_def)
qed

section \<open>The best candidate\<close>

lemma max_element_from_split:
  "\<exists>pre post. l # cs = pre @ max_element_from l cs # post \<and>
     (\<forall>c\<in>set pre. score c < score (max_element_from l cs)) \<and>
     (\<forall>c\<in>set post. score c \<le> score (max_element_from l cs))"
proof (induction cs arbitrary: l)
  case Nil
  have "[l] = [] @ l # [] \<and> (\<forall>c\<in>set []. score c < score l) \<and>
        (\<forall>c\<in>set []. score c \<le> score l)"
    by simp
  then show ?case
    unfolding max_element_from.simps by blast
next
  case (Cons c cs)
  define l' where "l' = (if score l < score c then c else l)"
  define m where "m = max_element_from l' cs"
  have m_eq: "max_element_from l (c # cs) = m" by (simp add: m_def l'_def)
  from Cons.IH[of l'] obtain pre post where
    split: "l' # cs = pre @ m # post" and
    before: "\<forall>d\<in>set pre. score d < score m" and
    after: "\<forall>d\<in>set post. score d \<le> score m"
    unfolding m_def by blast
  show ?case
  proof (cases pre)
    case Nil
    with split have m_l': "m = l'" and cs: "cs = post" by simp_all
    show ?thesis
    proof (cases "score l < score c")
      case True
      then have "m = c" using m_l' by (simp add: l'_def)
      with True after cs have
        "l # c # cs = [l] @ m # post \<and> (\<forall>d\<in>set [l]. score d < score m) \<and>
         (\<forall>d\<in>set post. score d \<le> score m)"
        by simp
      then show ?thesis unfolding m_eq by blast
    next
      case False
      then have "m = l" using m_l' by (simp add: l'_def)
      with False after cs have
        "l # c # cs = [] @ m # (c # post) \<and> (\<forall>d\<in>set []. score d < score m) \<and>
         (\<forall>d\<in>set (c # post). score d \<le> score m)"
        by simp
      then show ?thesis unfolding m_eq by blast
    qed
  next
    case (Cons p pre')
    with split have p: "p = l'" and cs: "cs = pre' @ m # post" by simp_all
    from before Cons p have l'm: "score l' < score m" by simp
    have "score l \<le> score l'" "score c \<le> score l'" by (simp_all add: l'_def)
    with l'm have "score l < score m" "score c < score m" by simp_all
    with before Cons after cs have
      "l # c # cs = (l # c # pre') @ m # post \<and>
       (\<forall>d\<in>set (l # c # pre'). score d < score m) \<and>
       (\<forall>d\<in>set post. score d \<le> score m)"
      by simp
    then show ?thesis unfolding m_eq by blast
  qed
qed

lemma max_element_first_max:
  assumes "xs \<noteq> []"
  shows "\<exists>k<length xs. max_element xs = Inr (xs ! k) \<and>
           (\<forall>j<k. score (xs ! j) < score (xs ! k)) \<and>
           (\<forall>j<length xs. score (xs ! j) \<le> score (xs ! k))"
proof -
  from assms obtain l cs where xs: "xs = l # cs" by (cases xs) auto
  define m where "m = max_element_from l cs"
  from max_element_from_split[of l cs] obtain pre post where
    split: "xs = pre @ m # post" and
    before: "\<forall>c\<in>set pre. score c < score m" and
    after: "\<forall>c\<in>set post. score c \<le> score m"
    unfolding m_def xs by blast
  have k: "length pre < length xs" and at: "xs ! length pre = m"
    by (simp_all add: split)
  have lt: "score (xs ! j) < score m" if "j < length pre" for j
    using that before by (simp add: split nth_append)
  have le: "score (xs ! j) \<le> score m" if "j < length xs" for j
  proof -
    have "xs ! j \<in> set xs" using that by simp
    then have "xs ! j \<in> set pre \<or> xs ! j = m \<or> xs ! j \<in> set post"
      by (auto simp: split)
    with before after show ?thesis by auto
  qed
  have "max_element xs = Inr m" by (simp add: max_element_def xs m_def)
  with k at lt le show ?thesis by auto
qed

lemma ScoreCandidates_keys:
  assumes "ScoreCandidates options grid discrete_scans sp candidates = Inr scored"
  shows "length scored = length candidates \<and>
         map enumeration_key scored = map enumeration_key candidates"
proof -
  from ScoreCandidates_Inr[OF assms]
  have l2: "list_all2 (scored_as options grid discrete_scans) candidates scored" .
  then have len: "length scored = length candidates"
    by (simp add: list_all2_lengthD)
  have "enumeration_key (scored ! k) = enumeration_key (candidates ! k)"
    if "k < length candidates" for k
    using l2 that by (auto simp: list_all2_conv_all_nth scored_as_def enumeration_key_def)
  with len show ?thesis
    by (simp add: list_eq_iff_nth_eq)
qed

lemma Match_with_stages:
  assumes "GenerateExhaustiveSearchCandidates
             (Match_search_parameters ext options initial_pose_estimate point_cloud grid) =
           Inr candidates"
    and "ScoreCandidates options grid
           (Match_discrete_scans ext options initial_pose_estimate point_cloud grid)
           (Match_search_parameters ext options initial_pose_estimate point_cloud grid)
           candidates = Inr scored"
    and "max_element scored = Inr best_candidate"
  shows "Match ext options initial_pose_estimate point_cloud grid (Some old) =
     Inr (score best_candidate,
          \<lparr> translation =
              (fst (translation initial_pose_estimate) + metric_x best_candidate,
               snd (translation initial_pose_estimate) + metric_y best_candidate),
            rotation = rotation initial_pose_estimate + orientation best_candidate \<rparr>)"
  using assms by (simp add: Match_def Let_def)

lemma Rotation2D_apply_add:
  "Rotation2D_apply (a + b) v = Rotation2D_apply a (Rotation2D_apply b v)"
  by (simp add: Rotation2D_apply_def cos_add sin_add algebra_simps)

text \<open>A run of the exhaustive search on a small input, stage by stage.\<close>

lemma enumeration_small: "enumeration sp_small = candidates_small"
  by (simp add: enumeration_def candidates_of_scan_def row_of_def sp_small_def
      candidates_small_def Let_def upto.simps)

lemma Generate_small: "GenerateExhaustiveSearchCandidates sp_small = Inr candidates_small"
proof -
  have cnt: "count_loop sp_small 0 0 = Inr 6"
    using count_loop_ok[of 0 sp_small 0]
    by (simp add: sp_small_def bounds_in_range_def bounds_not_inverted_def cell_count_def
        INT_MAX_def INT_MIN_def)
  have scn: "scan_loop sp_small 0 [] = Inr candidates_small"
    using scan_loop_ok[of 0 sp_small "[]"] enumeration_small
    by (simp add: sp_small_def bounds_in_range_def INT_MAX_def INT_MIN_def enumeration_def)
  show ?thesis
    using cnt scn by (simp add: GenerateExhaustiveSearchCandidates_def candidates_small_def)
qed

lemma Score_small:
  "ScoreCandidates options_zero grid_two_peaks [[(0, 0)]] sp_small candidates_small =
     Inr scored_small"
  by (simp add: candidates_small_def scored_small_def Candidate2D_ctor_def sp_small_def
      grid_two_peaks_def options_zero_def ComputeCandidateScore_def
      ComputeCandidateScore_ProbabilityGrid_def proposed_xy_index_eq int_ok_def INT_MAX_def
      INT_MIN_def score_factor_def Pow2_def hypot_def)

lemma Match_small_stages:
  "Match_search_parameters ext_small options_zero pose_3_4 [] grid_two_peaks = sp_small \<and>
   Match_discrete_scans ext_small options_zero pose_3_4 [] grid_two_peaks = [[(0, 0)]]"
  by (simp add: Match_search_parameters_def Match_discrete_scans_def ext_small_def Let_def)

text \<open>
  A second run, with three rotations: the best candidate is the last one, at scan index 2
  and one cell along x.
\<close>

lemma enumeration_three: "enumeration sp_three = candidates_three"
  by (simp add: enumeration_def candidates_of_scan_def row_of_def sp_three_def
      candidates_three_def Let_def upto.simps)

lemma Generate_three: "GenerateExhaustiveSearchCandidates sp_three = Inr candidates_three"
proof -
  have cnt: "count_loop sp_three 0 0 = Inr 6"
    using count_loop_ok[of 0 sp_three 0]
    by (simp add: sp_three_def bounds_in_range_def bounds_not_inverted_def cell_count_def
        INT_MAX_def INT_MIN_def upto.simps nth_Cons')
  have scn: "scan_loop sp_three 0 [] = Inr candidates_three"
    using scan_loop_ok[of 0 sp_three "[]"] enumeration_three
    by (simp add: sp_three_def bounds_in_range_def INT_MAX_def INT_MIN_def enumeration_def
        nth_Cons')
  show ?thesis
    using cnt scn by (simp add: GenerateExhaustiveSearchCandidates_def candidates_three_def)
qed

lemma Score_three:
  "ScoreCandidates options_zero grid_peak_6_5 [[(0, 0)], [(0, 0)], [(5, 5)]] sp_three
     candidates_three = Inr scored_three"
  by (simp add: candidates_three_def scored_three_def Candidate2D_ctor_def sp_three_def
      grid_peak_6_5_def options_zero_def ComputeCandidateScore_def
      ComputeCandidateScore_ProbabilityGrid_def proposed_xy_index_eq int_ok_def INT_MAX_def
      INT_MIN_def score_factor_def Pow2_def hypot_def)

lemma Match_three_stages:
  "Match_search_parameters ext_three options_zero pose_3_4 [] grid_peak_6_5 = sp_three \<and>
   Match_discrete_scans ext_three options_zero pose_3_4 [] grid_peak_6_5 =
     [[(0, 0)], [(0, 0)], [(5, 5)]]"
  by (simp add: Match_search_parameters_def Match_discrete_scans_def ext_three_def Let_def)

lemma max_element_three:
  "max_element scored_three = Inr ((Candidate2D_ctor 2 1 0 sp_three)\<lparr>score := 9 / 10\<rparr>)"
  by (simp add: max_element_def scored_three_def)

text \<open>
  Claim C2. When the candidate list is not empty and every candidate can be scored, the
  score that \<open>Match\<close> returns is the greatest of the scores after the penalty, and the
  winner is the first candidate with that score: every candidate before it is strictly
  worse. The scored candidates stand in the order of the enumeration, which is ascending in
  the scan index, then the x offset, then the y offset.
\<close>

theorem C2_best_score_first_maximum:
  assumes gen: "GenerateExhaustiveSearchCandidates
             (Match_search_parameters ext options initial_pose_estimate point_cloud grid) =
           Inr candidates"
    and sc: "ScoreCandidates options grid
           (Match_discrete_scans ext options initial_pose_estimate point_cloud grid)
           (Match_search_parameters ext options initial_pose_estimate point_cloud grid)
           candidates = Inr scored"
    and ne: "candidates \<noteq> []"
  shows "\<exists>k<length scored.
     Match ext options initial_pose_estimate point_cloud grid (Some old) =
       Inr (score (scored ! k),
            \<lparr> translation =
                (fst (translation initial_pose_estimate) + metric_x (scored ! k),
                 snd (translation initial_pose_estimate) + metric_y (scored ! k)),
              rotation = rotation initial_pose_estimate + orientation (scored ! k) \<rparr>) \<and>
     max_element scored = Inr (scored ! k) \<and>
     score (scored ! k) = Max (score ` set scored) \<and>
     (\<forall>j<k. score (scored ! j) < score (scored ! k)) \<and>
     map enumeration_key scored = map enumeration_key candidates \<and>
     sorted_wrt key_less (map enumeration_key candidates)"
proof -
  from ScoreCandidates_keys[OF sc] ne have nonempty: "scored \<noteq> []"
    and keys: "map enumeration_key scored = map enumeration_key candidates"
    by auto
  from max_element_first_max[OF nonempty] obtain k where
    k: "k < length scored" and
    best: "max_element scored = Inr (scored ! k)" and
    first: "\<forall>j<k. score (scored ! j) < score (scored ! k)" and
    greatest: "\<forall>j<length scored. score (scored ! j) \<le> score (scored ! k)"
    by blast
  have "Max (score ` set scored) = score (scored ! k)"
  proof (rule Max_eqI)
    show "finite (score ` set scored)" by simp
    show "score (scored ! k) \<in> score ` set scored" using k by simp
    fix s assume "s \<in> score ` set scored"
    then obtain j where "j < length scored" "s = score (scored ! j)"
      by (auto simp: in_set_conv_nth)
    with greatest show "s \<le> score (scored ! k)" by simp
  qed
  then have max: "score (scored ! k) = Max (score ` set scored)" by simp
  have order: "sorted_wrt key_less (map enumeration_key candidates)"
    using sorted_enumeration[of "Match_search_parameters ext options initial_pose_estimate
      point_cloud grid"] Generate_Inr[OF gen]
    by (simp add: sorted_wrt_map)
  from Match_with_stages[OF gen sc best, of old] k best max first keys order
  show ?thesis by blast
qed

theorem C2_best_score_first_maximum_witness:
  "(\<exists>k<length scored_small.
     Match ext_small options_zero pose_3_4 [] grid_two_peaks (Some pose_3_4) =
       Inr (score (scored_small ! k),
            \<lparr> translation =
                (3 + metric_x (scored_small ! k), 4 + metric_y (scored_small ! k)),
              rotation = 1 + orientation (scored_small ! k) \<rparr>) \<and>
     max_element scored_small = Inr (scored_small ! k) \<and>
     score (scored_small ! k) = Max (score ` set scored_small) \<and>
     (\<forall>j<k. score (scored_small ! j) < score (scored_small ! k)) \<and>
     map enumeration_key scored_small = map enumeration_key candidates_small \<and>
     sorted_wrt key_less (map enumeration_key candidates_small)) \<and>
   max_element scored_small = Inr (scored_small ! 3) \<and>
   score (scored_small ! 3) = 9 / 10 \<and> score (scored_small ! 5) = 9 / 10 \<and>
   enumeration_key (scored_small ! 3) = (0, 0, 0)"
proof -
  have gen: "GenerateExhaustiveSearchCandidates
      (Match_search_parameters ext_small options_zero pose_3_4 [] grid_two_peaks) =
      Inr candidates_small"
    using Generate_small Match_small_stages by simp
  have sc: "ScoreCandidates options_zero grid_two_peaks
      (Match_discrete_scans ext_small options_zero pose_3_4 [] grid_two_peaks)
      (Match_search_parameters ext_small options_zero pose_3_4 [] grid_two_peaks)
      candidates_small = Inr scored_small"
    using Score_small Match_small_stages by simp
  have ne: "candidates_small \<noteq> []" by (simp add: candidates_small_def)
  have at3: "max_element scored_small = Inr (scored_small ! 3) \<and>
     score (scored_small ! 3) = 9 / 10 \<and> score (scored_small ! 5) = 9 / 10 \<and>
     enumeration_key (scored_small ! 3) = (0, 0, 0)"
    by (simp add: max_element_def scored_small_def enumeration_key_def Candidate2D_ctor_def)
  show ?thesis
    using C2_best_score_first_maximum[OF gen sc ne, of pose_3_4] at3
    by (simp add: pose_3_4_def)
qed

text \<open>
  Claim C7. The pose that \<open>Match\<close> writes has the rotation of the initial pose composed
  with the rotation by the winner's orientation, and the translation of the initial pose
  plus the winner's metric offset, added as it is.
\<close>

theorem C7_refined_pose:
  assumes gen: "GenerateExhaustiveSearchCandidates
             (Match_search_parameters ext options initial_pose_estimate point_cloud grid) =
           Inr candidates"
    and sc: "ScoreCandidates options grid
           (Match_discrete_scans ext options initial_pose_estimate point_cloud grid)
           (Match_search_parameters ext options initial_pose_estimate point_cloud grid)
           candidates = Inr scored"
    and ne: "candidates \<noteq> []"
  shows "\<exists>winner refined.
     max_element scored = Inr winner \<and>
     Match ext options initial_pose_estimate point_cloud grid (Some old) =
       Inr (score winner, refined) \<and>
     translation refined =
       (fst (translation initial_pose_estimate) + metric_x winner,
        snd (translation initial_pose_estimate) + metric_y winner) \<and>
     rotation refined = rotation initial_pose_estimate + orientation winner \<and>
     (\<forall>v. Rotation2D_apply (rotation refined) v =
            Rotation2D_apply (rotation initial_pose_estimate)
              (Rotation2D_apply (orientation winner) v))"
proof -
  from ScoreCandidates_keys[OF sc] ne have "scored \<noteq> []" by auto
  from max_element_first_max[OF this] obtain winner where
    best: "max_element scored = Inr winner"
    by blast
  from Match_with_stages[OF gen sc best, of old] show ?thesis
    using best by (auto simp: Rotation2D_apply_add)
qed

theorem C7_refined_pose_witness:
  "(\<exists>winner refined.
     max_element scored_three = Inr winner \<and>
     Match ext_three options_zero pose_3_4 [] grid_peak_6_5 (Some pose_shift) =
       Inr (score winner, refined) \<and>
     translation refined = (3 + metric_x winner, 4 + metric_y winner) \<and>
     rotation refined = 1 + orientation winner \<and>
     (\<forall>v. Rotation2D_apply (rotation refined) v =
            Rotation2D_apply 1 (Rotation2D_apply (orientation winner) v)) \<and>
     enumeration_key winner = (2, 1, 0) \<and> metric_x winner = 2 \<and> metric_y winner = 0 \<and>
     orientation winner = 1 / 4) \<and>
   Match ext_three options_zero pose_3_4 [] grid_peak_6_5 (Some pose_shift) =
     Inr (9 / 10, \<lparr> translation = (5, 4), rotation = 5 / 4 \<rparr>) \<and>
   pose_shift \<noteq> \<lparr> translation = (5, 4), rotation = 5 / 4 \<rparr> \<and>
   pose_3_4 \<noteq> \<lparr> translation = (5, 4), rotation = 5 / 4 \<rparr>"
proof -
  have gen: "GenerateExhaustiveSearchCandidates
      (Match_search_parameters ext_three options_zero pose_3_4 [] grid_peak_6_5) =
      Inr candidates_three"
    using Generate_three Match_three_stages by simp
  have sc: "ScoreCandidates options_zero grid_peak_6_5
      (Match_discrete_scans ext_three options_zero pose_3_4 [] grid_peak_6_5)
      (Match_search_parameters ext_three options_zero pose_3_4 [] grid_peak_6_5)
      candidates_three = Inr scored_three"
    using Score_three Match_three_stages by simp
  have ne: "candidates_three \<noteq> []" by (simp add: candidates_three_def)
  from C7_refined_pose[OF gen sc ne, of pose_shift] obtain winner refined where
    w: "max_element scored_three = Inr winner" and
    m: "Match ext_three options_zero pose_3_4 [] grid_peak_6_5 (Some pose_shift) =
          Inr (score winner, refined)" and
    t: "translation refined =
          (fst (translation pose_3_4) + metric_x winner,
           snd (translation pose_3_4) + metric_y winner)" and
    r: "rotation refined = rotation pose_3_4 + orientation winner" and
    a: "\<forall>v. Rotation2D_apply (rotation refined) v =
            Rotation2D_apply (rotation pose_3_4) (Rotation2D_apply (orientation winner) v)"
    by blast
  from w max_element_three
  have winner: "winner = (Candidate2D_ctor 2 1 0 sp_three)\<lparr>score := 9 / 10\<rparr>" by simp
  have fields: "enumeration_key winner = (2, 1, 0) \<and> metric_x winner = 2 \<and>
      metric_y winner = 0 \<and> orientation winner = 1 / 4 \<and> score winner = 9 / 10"
    by (simp add: winner Candidate2D_ctor_def sp_three_def enumeration_key_def)
  from t r fields have refined: "refined = \<lparr> translation = (5, 4), rotation = 5 / 4 \<rparr>"
    by (simp add: pose_3_4_def)
  have first: "\<exists>winner refined.
     max_element scored_three = Inr winner \<and>
     Match ext_three options_zero pose_3_4 [] grid_peak_6_5 (Some pose_shift) =
       Inr (score winner, refined) \<and>
     translation refined = (3 + metric_x winner, 4 + metric_y winner) \<and>
     rotation refined = 1 + orientation winner \<and>
     (\<forall>v. Rotation2D_apply (rotation refined) v =
            Rotation2D_apply 1 (Rotation2D_apply (orientation winner) v)) \<and>
     enumeration_key winner = (2, 1, 0) \<and> metric_x winner = 2 \<and> metric_y winner = 0 \<and>
     orientation winner = 1 / 4"
  proof -
    have t': "translation refined = (3 + metric_x winner, 4 + metric_y winner)"
      using t by (simp add: pose_3_4_def)
    have r': "rotation refined = 1 + orientation winner"
      using r by (simp add: pose_3_4_def)
    have a': "\<forall>v. Rotation2D_apply (rotation refined) v =
            Rotation2D_apply 1 (Rotation2D_apply (orientation winner) v)"
      using a by (simp add: pose_3_4_def)
    from w m t' r' a' fields show ?thesis by blast
  qed
  have second: "Match ext_three options_zero pose_3_4 [] grid_peak_6_5 (Some pose_shift) =
     Inr (9 / 10, \<lparr> translation = (5, 4), rotation = 5 / 4 \<rparr>)"
    using m fields refined by simp
  have third: "pose_shift \<noteq> \<lparr> translation = (5, 4), rotation = 5 / 4 \<rparr> \<and>
     pose_3_4 \<noteq> \<lparr> translation = (5, 4), rotation = 5 / 4 \<rparr>"
    by (simp add: pose_shift_def pose_3_4_def)
  from first second third show ?thesis by blast
qed

section \<open>Reads stay inside the grid\<close>

lemma trimming_invariantD:
  assumes "trimming_invariant valid sp discrete_scans"
    and "0 \<le> i" "i < num_scans sp"
    and "xy_index \<in> set (discrete_scans ! nat i)"
    and "min_x (linear_bounds sp ! nat i) \<le> x_off" "x_off \<le> max_x (linear_bounds sp ! nat i)"
    and "min_y (linear_bounds sp ! nat i) \<le> y_off" "y_off \<le> max_y (linear_bounds sp ! nat i)"
  shows "valid (fst xy_index + x_off, snd xy_index + y_off)"
  using assms by (simp add: trimming_invariant_def list_all_iff Let_def)

lemma cells_of_enumerated_candidate:
  assumes inv: "trimming_invariant valid sp discrete_scans"
    and c: "candidate \<in> set (enumeration sp)"
  shows "list_all valid
           (shifted_cells (discrete_scans ! nat (scan_index candidate))
              (x_index_offset candidate) (y_index_offset candidate))"
  using in_enumeration[OF c] inv
  by (auto simp: list_all_iff shifted_cells_def intro!: trimming_invariantD)

lemma ComputeCandidateScore_only_valid_cells:
  assumes "grids_agree_on valid grid grid'"
    and "list_all valid (shifted_cells discrete_scan x_off y_off)"
  shows "ComputeCandidateScore grid discrete_scan x_off y_off =
         ComputeCandidateScore grid' discrete_scan x_off y_off"
proof (cases grid)
  case (ProbabilityGrid l p)
  with assms(1) obtain p' where g': "grid' = ProbabilityGrid l p'"
    and agree: "\<And>c. valid c \<Longrightarrow> p c = p' c"
    by (auto simp: grids_agree_on_def split: Grid2D.splits)
  have eq: "map p (shifted_cells discrete_scan x_off y_off) =
        map p' (shifted_cells discrete_scan x_off y_off)"
    using assms(2) agree by (auto simp: list_all_iff)
  show ?thesis
    by (simp add: ProbabilityGrid g' ComputeCandidateScore_def
        ComputeCandidateScore_ProbabilityGrid_def probability_loop_eq eq)
next
  case (TSDF2D l t m)
  with assms(1) obtain t' where g': "grid' = TSDF2D l t' m"
    and agree: "\<And>c. valid c \<Longrightarrow> t c = t' c"
    by (auto simp: grids_agree_on_def split: Grid2D.splits)
  have eq: "map (\<lambda>c. normalized_proximity m (t c) * snd (t c))
          (shifted_cells discrete_scan x_off y_off) =
        map (\<lambda>c. normalized_proximity m (t' c) * snd (t' c))
          (shifted_cells discrete_scan x_off y_off)"
    "map (\<lambda>c. snd (t c)) (shifted_cells discrete_scan x_off y_off) =
     map (\<lambda>c. snd (t' c)) (shifted_cells discrete_scan x_off y_off)"
    using assms(2) agree by (auto simp: list_all_iff)
  show ?thesis
    by (simp add: TSDF2D g' ComputeCandidateScore_def ComputeCandidateScore_TSDF2D_def
        tsdf_loop_eq eq)
qed

lemma ScoreCandidates_only_valid_cells:
  assumes "grids_agree_on valid grid grid'"
    and "\<And>candidate. candidate \<in> set candidates \<Longrightarrow>
           list_all valid
             (shifted_cells (discrete_scans ! nat (scan_index candidate))
                (x_index_offset candidate) (y_index_offset candidate))"
  shows "ScoreCandidates options grid discrete_scans sp candidates =
         ScoreCandidates options grid' discrete_scans sp candidates"
  using assms(2)
proof (induction candidates)
  case Nil
  show ?case by simp
next
  case (Cons c cs)
  have head: "ComputeCandidateScore grid (discrete_scans ! nat (scan_index c))
          (x_index_offset c) (y_index_offset c) =
        ComputeCandidateScore grid' (discrete_scans ! nat (scan_index c))
          (x_index_offset c) (y_index_offset c)"
    using assms(1) Cons.prems[of c]
    by (intro ComputeCandidateScore_only_valid_cells) simp_all
  have tail: "ScoreCandidates options grid discrete_scans sp cs =
        ScoreCandidates options grid' discrete_scans sp cs"
    using Cons.prems by (intro Cons.IH) simp
  show ?case
    unfolding ScoreCandidates.simps head tail by (rule refl)
qed

text \<open>
  Claim C4. Under the trimming invariant (and with one discrete scan per scan index, and
  valid cells that are pairs of 32-bit integers), every cell that the scoring loops compute
  for a generated candidate is a valid cell, computed without overflow; hence the scores
  depend on the grid through its valid cells only: two grids that agree there give the same
  result.
\<close>

theorem C4_reads_inside_the_grid:
  assumes gen: "GenerateExhaustiveSearchCandidates sp = Inr candidates"
    and scans: "num_scans sp \<le> int (length discrete_scans)"
    and inv: "trimming_invariant valid sp discrete_scans"
    and rng: "\<And>c. valid c \<Longrightarrow> int_ok (fst c) \<and> int_ok (snd c)"
  shows "(\<forall>candidate\<in>set candidates.
            0 \<le> scan_index candidate \<and> scan_index candidate < int (length discrete_scans) \<and>
            (\<forall>xy_index\<in>set (discrete_scans ! nat (scan_index candidate)).
               \<exists>c. proposed_xy_index xy_index (x_index_offset candidate)
                      (y_index_offset candidate) = Inr c \<and> valid c)) \<and>
         (\<forall>grid grid'. grids_agree_on valid grid grid' \<longrightarrow>
            ScoreCandidates options grid discrete_scans sp candidates =
            ScoreCandidates options grid' discrete_scans sp candidates)"
proof -
  have cs: "candidates = enumeration sp" using gen by (rule Generate_Inr)
  have cells: "list_all valid
      (shifted_cells (discrete_scans ! nat (scan_index candidate))
         (x_index_offset candidate) (y_index_offset candidate))"
    if "candidate \<in> set candidates" for candidate
    using that inv cs by (simp add: cells_of_enumerated_candidate)
  have first: "0 \<le> scan_index candidate \<and> scan_index candidate < int (length discrete_scans) \<and>
      (\<forall>xy_index\<in>set (discrete_scans ! nat (scan_index candidate)).
         \<exists>c. proposed_xy_index xy_index (x_index_offset candidate)
                (y_index_offset candidate) = Inr c \<and> valid c)"
    if c: "candidate \<in> set candidates" for candidate
  proof -
    from c cs have "candidate \<in> set (enumeration sp)" by simp
    from in_enumeration[OF this] scans
    have idx: "0 \<le> scan_index candidate \<and> scan_index candidate < int (length discrete_scans)"
      by simp
    have "\<exists>c. proposed_xy_index xy_index (x_index_offset candidate)
                (y_index_offset candidate) = Inr c \<and> valid c"
      if "xy_index \<in> set (discrete_scans ! nat (scan_index candidate))" for xy_index
    proof -
      from cells[OF c] that
      have v: "valid (fst xy_index + x_index_offset candidate,
                      snd xy_index + y_index_offset candidate)"
        by (auto simp: list_all_iff shifted_cells_def)
      from rng[OF v] have "proposed_xy_index xy_index (x_index_offset candidate)
          (y_index_offset candidate) =
          Inr (fst xy_index + x_index_offset candidate, snd xy_index + y_index_offset candidate)"
        by (simp add: proposed_xy_index_eq)
      with v show ?thesis by simp
    qed
    with idx show ?thesis by blast
  qed
  have second: "ScoreCandidates options grid discrete_scans sp candidates =
      ScoreCandidates options grid' discrete_scans sp candidates"
    if "grids_agree_on valid grid grid'" for grid grid'
    using that cells by (rule ScoreCandidates_only_valid_cells)
  from first second show ?thesis by blast
qed

theorem C4_reads_inside_the_grid_witness:
  "list_all
     (\<lambda>candidate.
        0 \<le> scan_index candidate \<and> scan_index candidate < int (length [[(5 :: int, 5 :: int)]]) \<and>
        list_all
          (\<lambda>xy_index. \<exists>c. proposed_xy_index xy_index (x_index_offset candidate)
                             (y_index_offset candidate) = Inr c \<and> valid_10_by_10 c)
          ([[(5, 5)]] ! nat (scan_index candidate)))
     candidates_small \<and>
   ScoreCandidates options_zero grid_two_peaks [[(5, 5)]] sp_small candidates_small =
   ScoreCandidates options_zero grid_differs_outside [[(5, 5)]] sp_small candidates_small"
proof -
  have scans: "num_scans sp_small \<le> int (length [[(5 :: int, 5 :: int)]])"
    by (simp add: sp_small_def)
  have inv: "trimming_invariant valid_10_by_10 sp_small [[(5, 5)]]"
    by (simp add: trimming_invariant_def sp_small_def Let_def upto.simps valid_10_by_10_def)
  have rng: "int_ok (fst c) \<and> int_ok (snd c)" if "valid_10_by_10 c" for c
    using that by (simp add: valid_10_by_10_def int_ok_def INT_MAX_def INT_MIN_def)
  have agree: "grids_agree_on valid_10_by_10 grid_two_peaks grid_differs_outside"
    by (simp add: grids_agree_on_def grid_two_peaks_def grid_differs_outside_def
        valid_10_by_10_def)
  show ?thesis
    using C4_reads_inside_the_grid[OF Generate_small scans inv rng, of options_zero] agree
    by (simp add: list_all_iff)
qed

section \<open>The fine aligners\<close>





end
